theory Spec2Isabelle
  imports Complex_Main "HOL-Library.Product_Lexorder"
begin

section \<open>Python strings\<close>

text \<open>
  Strings are lists of characters. The source only applies \<open>lower\<close>, \<open>strip\<close>,
  \<open>split\<close>, \<open>in\<close> and \<open>==\<close> to them. Case folding and whitespace are modelled on the ASCII
  range: \<open>A\<close>..\<open>Z\<close> are folded, and the whitespace characters are the ones Python's
  \<open>str.isspace\<close> accepts below 128 (codes 9-13, 28-31 and 32).
\<close>

definition lower_char :: "char \<Rightarrow> char" where
  "lower_char c =
     (let n = (of_char c :: nat) in if 65 \<le> n \<and> n \<le> 90 then char_of (n + 32) else c)"

definition lower :: "string \<Rightarrow> string" where
  "lower s = map lower_char s"

definition is_space :: "char \<Rightarrow> bool" where
  "is_space c =
     (let n = (of_char c :: nat) in (9 \<le> n \<and> n \<le> 13) \<or> (28 \<le> n \<and> n \<le> 32))"

definition strip :: "string \<Rightarrow> string" where
  "strip s = rev (dropWhile is_space (rev (dropWhile is_space s)))"

text \<open>\<open>starts_with p s\<close>: \<open>s.startswith(p)\<close>; \<open>str_in n h\<close>: Python's \<open>n in h\<close> on two strings.\<close>

fun starts_with :: "string \<Rightarrow> string \<Rightarrow> bool" where
  "starts_with [] s = True"
| "starts_with (p # ps) [] = False"
| "starts_with (p # ps) (c # cs) = (p = c \<and> starts_with ps cs)"

fun str_in :: "string \<Rightarrow> string \<Rightarrow> bool" where
  "str_in n [] = (n = [])"
| "str_in n (c # cs) = (starts_with n (c # cs) \<or> str_in n cs)"

text \<open>
  \<open>split_ws s\<close> is \<open>s.split()\<close>: the maximal runs of non-whitespace characters.
  \<open>split_on sep s\<close> is \<open>s.split(sep)\<close> for a one-character separator: the pieces between
  separators, empty pieces kept. Both carry the piece being read as an accumulator.
\<close>

fun split_ws_acc :: "string \<Rightarrow> string \<Rightarrow> string list" where
  "split_ws_acc acc [] = (if acc = [] then [] else [acc])"
| "split_ws_acc acc (c # cs) =
     (if is_space c then (if acc = [] then split_ws_acc [] cs else acc # split_ws_acc [] cs)
      else split_ws_acc (acc @ [c]) cs)"

definition split_ws :: "string \<Rightarrow> string list" where
  "split_ws s = split_ws_acc [] s"

fun split_on_acc :: "char \<Rightarrow> string \<Rightarrow> string \<Rightarrow> string list" where
  "split_on_acc sep acc [] = [acc]"
| "split_on_acc sep acc (c # cs) =
     (if c = sep then acc # split_on_acc sep [] cs else split_on_acc sep (acc @ [c]) cs)"

definition split_on :: "char \<Rightarrow> string \<Rightarrow> string list" where
  "split_on sep s = split_on_acc sep [] s"

section \<open>Cuisine taxonomy matcher (app/routes/ai.py)\<close>

text \<open>
  \<open>normalize_cuisine_name\<close>: the empty string stays empty, anything else is lowercased and
  stripped.
\<close>

definition normalize_cuisine_name :: "string \<Rightarrow> string" where
  "normalize_cuisine_name cuisine = (if cuisine = [] then [] else strip (lower cuisine))"

text \<open>The table of cuisine groups, in the order the dictionary literal lists them.\<close>

definition cuisine_groups :: "(string \<times> string list) list" where
  "cuisine_groups =
    [(''south indian'', [''south indian'', ''south'', ''tamil'', ''telugu'', ''kannada'',
        ''malayalam'', ''kerala'', ''kerala cuisine'', ''andhra'', ''andhra pradesh'', ''dosa'',
        ''idli'', ''sambar'', ''rasam'']),
     (''north indian'', [''north indian'', ''north'', ''punjabi'', ''delhi'', ''rajasthani'',
        ''gujarati'', ''uttar pradesh'', ''haryana'', ''himachal'']),
     (''bengali'', [''bengali'', ''bengal'', ''kolkata'', ''west bengal'']),
     (''gujarati'', [''gujarati'', ''gujarat'']),
     (''maharashtrian'', [''maharashtrian'', ''maharashtra'', ''marathi'', ''pune'', ''mumbai'']),
     (''punjabi'', [''punjabi'', ''punjab'']),
     (''rajasthani'', [''rajasthani'', ''rajasthan'']),
     (''kerala'', [''kerala'', ''kerala cuisine'', ''malayalam'', ''kerala food''])]"

text \<open>
  The loop over \<open>cuisine_groups.items()\<close> that stops at the first group one of whose variants
  occurs in the normalised name; \<open>None\<close> when no group does.
\<close>

fun find_group :: "(string \<times> string list) list \<Rightarrow> string \<Rightarrow> string option" where
  "find_group [] nm = None"
| "find_group ((group_name, variants) # rest) nm =
     (if list_ex (\<lambda>variant. str_in variant nm) variants then Some group_name
      else find_group rest nm)"

definition common_noise_words :: "string list" where
  "common_noise_words = [''indian'', ''cuisine'', ''food'', ''style'', ''cooking'']"

text \<open>
  \<open>set(norm.split()) - common_noise_words\<close>: Python sets are modelled as duplicate-free
  lists, of which the source only takes the intersection and the sizes.
\<close>

definition meaningful_words :: "string \<Rightarrow> string list" where
  "meaningful_words nm = filter (\<lambda>w. w \<notin> set common_noise_words) (remdups (split_ws nm))"

definition cuisine_matches :: "string \<Rightarrow> string \<Rightarrow> bool" where
  "cuisine_matches user_cuisine producer_cuisine =
    (if user_cuisine = [] \<or> producer_cuisine = [] then False
     else
       let user_norm = normalize_cuisine_name user_cuisine;
           producer_norm = normalize_cuisine_name producer_cuisine;
           user_has_north = str_in ''north'' user_norm;
           user_has_south = str_in ''south'' user_norm;
           producer_has_north = str_in ''north'' producer_norm;
           producer_has_south = str_in ''south'' producer_norm;
           conflict = ((user_has_north \<and> producer_has_south)
                       \<or> (user_has_south \<and> producer_has_north))
       in
       if conflict then False
       else
         let user_group = find_group cuisine_groups user_norm;
             producer_group = find_group cuisine_groups producer_norm
         in
         if user_group \<noteq> None \<and> producer_group \<noteq> None \<and> user_group = producer_group then True
         else if user_norm = producer_norm then True
         else if str_in user_norm producer_norm then (if conflict then False else True)
         else if str_in producer_norm user_norm then (if conflict then False else True)
         else
           let user_words = meaningful_words user_norm;
               producer_words = meaningful_words producer_norm;
               common_words = filter (\<lambda>w. w \<in> set producer_words) user_words
           in
           if length common_words > 0
              \<and> real (length common_words)
                  \<ge> real (min (length user_words) (length producer_words)) * 0.5
           then (if conflict then False else True)
           else False)"

section \<open>Geo-distance estimator (app/utils/distance.py)\<close>

text \<open>
  Python floats are modelled as real numbers, so rounding, infinities and NaN are outside the
  model. A coordinate is a \<open>real option\<close>, \<open>None\<close> being Python's \<open>None\<close>. The value
  \<open>None\<close> of the result is the source's \<open>return None\<close>.
  \<open>truthy_num\<close> is Python's truth value of such a value: \<open>None\<close> and \<open>0.0\<close> are false.
\<close>

definition truthy_num :: "real option \<Rightarrow> bool" where
  "truthy_num x = (case x of None \<Rightarrow> False | Some v \<Rightarrow> v \<noteq> 0)"

definition radians :: "real \<Rightarrow> real" where
  "radians x = x * pi / 180"

definition calculate_distance_haversine ::
  "real option \<Rightarrow> real option \<Rightarrow> real option \<Rightarrow> real option \<Rightarrow> real option" where
  "calculate_distance_haversine lat1 lon1 lat2 lon2 =
    (if \<not> list_all truthy_num [lat1, lon1, lat2, lon2] then None
     else
       let R = 6371;
           dlat = radians (the lat2 - the lat1);
           dlon = radians (the lon2 - the lon1);
           a = (sin (dlat / 2))\<^sup>2
               + cos (radians (the lat1)) * cos (radians (the lat2)) * (sin (dlon / 2))\<^sup>2;
           c = 2 * arcsin (sqrt a);
           distance = R * c
       in Some distance)"

text \<open>
  \<open>calculate_distance\<close> with its defaults \<open>use_google=False, api_key=None\<close>, the only way
  the recommendation routes call it: the Google branch is skipped.
\<close>

definition calculate_distance ::
  "real option \<Rightarrow> real option \<Rightarrow> real option \<Rightarrow> real option \<Rightarrow> real option" where
  "calculate_distance lat1 lon1 lat2 lon2 = calculate_distance_haversine lat1 lon1 lat2 lon2"

section \<open>Data model (app/models)\<close>

text \<open>
  One record per table, with the columns the recommendation code reads. A nullable column is
  an \<open>option\<close>. The primary keys \<open>id\<close> are named \<open>dish_id\<close>, \<open>prod_id\<close>, \<open>user_id\<close>;
  columns of the same name in two tables are told apart by a prefix. \<open>dish_allergens\<close> is
  the value of \<open>Dish.get_allergens_list()\<close>, a list of strings.
\<close>

record dish =
  dish_id :: int
  producer_id :: int
  price :: real
  currency :: "string option"
  category :: "string option"
  dietary_type :: "string option"
  spice_level :: "string option"
  dish_allergens :: "string list"
  description :: "string option"
  ingredients :: "string option"
  is_available :: bool
  average_rating :: "real option"
  view_count :: "int option"
  order_count :: "int option"

record producer =
  prod_id :: int
  cuisine_specialty :: "string option"
  latitude :: "real option"
  longitude :: "real option"
  status :: "string option"
  is_active :: bool

record order_row =
  customer_id :: int
  order_producer_id :: int
  payment_status :: "string option"
  items :: "int list"

record review =
  review_user_id :: int
  review_dish_id :: "int option"
  rating :: int
  is_visible :: bool

text \<open>
  \<open>items\<close> of an order holds the \<open>dish_id\<close> of each of its order items.

  The user: \<open>preferred_cuisines\<close> is the stored text column, parsed by
  \<open>get_preferred_cuisines_list\<close> below, which always returns a list of strings. The other
  three getters return whatever \<open>json.loads\<close> yields; they are modelled by their results
  (\<open>dietary_restrictions_list\<close>, \<open>allergens_list\<close>, \<open>meal_preferences_list\<close>), taken to be
  lists of strings, the shape in which the preference routes store them.
\<close>

record user =
  user_id :: int
  dietary_preferences :: "string option"
  user_spice_level :: "string option"
  budget_preference :: "string option"
  preferred_cuisines :: "string option"
  dietary_restrictions_list :: "string list"
  allergens_list :: "string list"
  meal_preferences_list :: "string list"

text \<open>The database: the rows of each table, in storage order.\<close>

record db =
  dishes :: "dish list"
  producers :: "producer list"
  orders :: "order_row list"
  reviews :: "review list"

text \<open>Python's truth value of an optional string: \<open>None\<close> and \<open>''\<close> are false.\<close>

definition truthy_str :: "string option \<Rightarrow> bool" where
  "truthy_str x = (case x of None \<Rightarrow> False | Some s \<Rightarrow> s \<noteq> [])"

section \<open>Preference parsing (app/models/user.py)\<close>

text \<open>
  \<open>json.loads\<close> belongs to the Python library and is a parameter \<open>loads\<close>: \<open>None\<close> stands
  for the exception it raises on text that is not JSON, \<open>Some (JArray xs)\<close> for a JSON array
  (of strings), \<open>Some JOther\<close> for any other JSON value.
\<close>

datatype json = JArray "string list" | JOther

definition get_preferred_cuisines_list :: "(string \<Rightarrow> json option) \<Rightarrow> user \<Rightarrow> string list" where
  "get_preferred_cuisines_list loads u =
    (if truthy_str (preferred_cuisines u) then
       let raw = the (preferred_cuisines u) in
       (case loads raw of
          Some (JArray parsed) \<Rightarrow> map strip (filter (\<lambda>c. c \<noteq> [] \<and> strip c \<noteq> []) parsed)
        | Some JOther \<Rightarrow> (if strip raw \<noteq> [] then [strip raw] else [])
        | None \<Rightarrow>
            (if CHR '','' \<in> set raw
             then map strip (filter (\<lambda>c. strip c \<noteq> []) (split_on CHR '','' raw))
             else (if strip raw \<noteq> [] then [strip raw] else [])))
     else [])"

section \<open>Queries\<close>

text \<open>
  \<open>ORDER BY ... DESC\<close> is a stable sort of the stored rows. A \<open>NULL\<close> sorts after every
  value under \<open>DESC\<close>, as in SQLite, the database the application configures by default.
  \<open>sql_limit\<close> is \<open>LIMIT n\<close>, where SQLite reads a negative \<open>n\<close> as no limit; a limit
  beyond the 64-bit range, which the database driver refuses, is outside the model.
  \<open>py_take n xs\<close> is the Python slice \<open>xs[:n]\<close>, which for a negative \<open>n\<close> drops the last
  \<open>-n\<close> elements.
\<close>

definition desc_key :: "real option \<Rightarrow> bool \<times> real" where
  "desc_key v = (case v of None \<Rightarrow> (True, 0) | Some x \<Rightarrow> (False, - x))"

definition count_key :: "int option \<Rightarrow> bool \<times> real" where
  "count_key v = desc_key (map_option real_of_int v)"

definition order_by_popularity :: "dish list \<Rightarrow> dish list" where
  "order_by_popularity ds =
     sort_key (\<lambda>d. (desc_key (average_rating d), count_key (order_count d), count_key (view_count d))) ds"

definition order_by_rating_orders :: "dish list \<Rightarrow> dish list" where
  "order_by_rating_orders ds =
     sort_key (\<lambda>d. (desc_key (average_rating d), count_key (order_count d))) ds"

definition sql_limit :: "int \<Rightarrow> 'a list \<Rightarrow> 'a list" where
  "sql_limit n xs = (if n < 0 then xs else take (nat n) xs)"

definition py_take :: "int \<Rightarrow> 'a list \<Rightarrow> 'a list" where
  "py_take n xs = (if n < 0 then take (length xs - nat (- n)) xs else take (nat n) xs)"

definition available_dishes :: "db \<Rightarrow> dish list" where
  "available_dishes d = filter is_available (dishes d)"

definition approved_producers :: "db \<Rightarrow> producer list" where
  "approved_producers d =
     filter (\<lambda>p. status p = Some ''approved'' \<and> is_active p) (producers d)"

text \<open>\<open>Producer.query.get(id)\<close>: the row with that primary key, whatever its status.\<close>

definition producer_get :: "db \<Rightarrow> int \<Rightarrow> producer option" where
  "producer_get d pid = find (\<lambda>p. prod_id p = pid) (producers d)"

text \<open>The query every stage ends with: order, cap at \<open>limit * 5\<close>, fetch.\<close>

definition fetch :: "int \<Rightarrow> dish list \<Rightarrow> dish list" where
  "fetch limit query = sql_limit (limit * 5) (order_by_popularity query)"

section \<open>Rule-based recommendations (app/routes/ai.py)\<close>

subsection \<open>Behaviour signals\<close>

text \<open>
  The paid orders of the user give the dishes and the producers ordered from (a producer is
  added once per order item, so an order without items adds none); the visible reviews
  rated 4 or more give the liked dishes. The Python sets are lists read through \<open>set\<close>.
\<close>

definition user_orders :: "db \<Rightarrow> user \<Rightarrow> order_row list" where
  "user_orders d u =
     filter (\<lambda>ord. customer_id ord = user_id u \<and> payment_status ord = Some ''paid'') (orders d)"

definition ordered_dish_ids :: "db \<Rightarrow> user \<Rightarrow> int list" where
  "ordered_dish_ids d u = concat (map items (user_orders d u))"

definition ordered_producer_ids :: "db \<Rightarrow> user \<Rightarrow> int list" where
  "ordered_producer_ids d u =
     map order_producer_id (filter (\<lambda>ord. items ord \<noteq> []) (user_orders d u))"

definition liked_dish_ids :: "db \<Rightarrow> user \<Rightarrow> int option list" where
  "liked_dish_ids d u =
     map review_dish_id
       (filter (\<lambda>r. review_user_id r = user_id u \<and> is_visible r \<and> rating r \<ge> 4) (reviews d))"

subsection \<open>Filter cascade\<close>

text \<open>
  The three \<open>..._filter_applied\<close> variables of the source, threaded through the stages.
  (\<open>location_filter_applied\<close> is written but never read, and is left out.)
\<close>

record flags =
  cuisine_filter_applied :: bool
  dietary_filter_applied :: bool
  spice_filter_applied :: bool

text \<open>
  Step 1: the approved producers within \<open>radius\<close> km of the caller. The loop stands twice in
  the source, with 20 km in the recommendations and 10 km in the popular listing.
\<close>

definition nearby_producer_ids :: "db \<Rightarrow> real option \<Rightarrow> real option \<Rightarrow> real \<Rightarrow> int list" where
  "nearby_producer_ids d lat lon radius =
     map prod_id
       (filter (\<lambda>p. truthy_num (latitude p) \<and> truthy_num (longitude p) \<and>
                  (let distance = calculate_distance lat lon (latitude p) (longitude p)
                   in truthy_num distance \<and> the distance \<le> radius))
          (approved_producers d))"

definition location_stage :: "db \<Rightarrow> real option \<Rightarrow> real option \<Rightarrow> dish list \<Rightarrow> dish list" where
  "location_stage d lat lon query =
     (if truthy_num lat \<and> truthy_num lon then
        (let nearby = nearby_producer_ids d lat lon 20 in
         if nearby \<noteq> [] then filter (\<lambda>x. producer_id x \<in> set nearby) query else query)
      else query)"

text \<open>
  Step 2: the approved producers with a specialty that one of the preferred cuisines
  matches (the inner loop stops at the first match, so each producer is listed once).
\<close>

definition matching_cuisine_producer_ids :: "db \<Rightarrow> string list \<Rightarrow> int list" where
  "matching_cuisine_producer_ids d prefs =
     map prod_id
       (filter (\<lambda>p. truthy_str (cuisine_specialty p) \<and>
                  list_ex (\<lambda>user_cuisine. cuisine_matches (strip user_cuisine) (the (cuisine_specialty p)))
                    prefs)
          (approved_producers d))"

definition by_dietary :: "user \<Rightarrow> dish list \<Rightarrow> dish list" where
  "by_dietary u query =
     filter (\<lambda>x. dietary_type x = Some (lower (the (dietary_preferences u)))) query"

definition by_spice :: "user \<Rightarrow> dish list \<Rightarrow> dish list" where
  "by_spice u query =
     filter (\<lambda>x. spice_level x = Some (lower (the (user_spice_level u)))) query"

text \<open>
  Steps 3 and 4, which the source writes out twice (no cuisine preference; no producer
  matching it): dietary type and spice level as hard filters, each when the user has one.
\<close>

definition dietary_spice_filters :: "user \<Rightarrow> dish list \<Rightarrow> dish list \<times> flags" where
  "dietary_spice_filters u query =
     (let dietary = truthy_str (dietary_preferences u);
          spice = truthy_str (user_spice_level u);
          query1 = (if dietary then by_dietary u query else query);
          query2 = (if spice then by_spice u query1 else query1)
      in (query2, \<lparr>cuisine_filter_applied = False, dietary_filter_applied = dietary,
                   spice_filter_applied = spice\<rparr>))"

text \<open>
  Steps 2 to 4 on the query that step 1 leaves: the cuisine filter when some producer
  matches, otherwise (and without a cuisine preference) the dietary and spice filters.
\<close>

definition initial_query :: "db \<Rightarrow> user \<Rightarrow> string list \<Rightarrow> dish list \<Rightarrow> dish list \<times> flags" where
  "initial_query d u prefs query =
     (if prefs \<noteq> [] then
        (let matching = matching_cuisine_producer_ids d prefs in
         if matching \<noteq> [] then
           (filter (\<lambda>x. producer_id x \<in> set matching) query,
            \<lparr>cuisine_filter_applied = True, dietary_filter_applied = False,
             spice_filter_applied = False\<rparr>)
         else dietary_spice_filters u query)
      else dietary_spice_filters u query)"

text \<open>
  The fallback levels, entered only when the initial query fetched nothing. Each level
  queries all available dishes afresh, so the location filter is dropped as well.
\<close>

definition fallback :: "db \<Rightarrow> user \<Rightarrow> int \<Rightarrow> dish list \<times> flags \<Rightarrow> dish list \<times> flags" where
  "fallback d u limit st =
     (let (dishes0, f0) = st in
      if dishes0 \<noteq> [] then st
      else
        let (dishes1, f1) =
              (if cuisine_filter_applied f0 then
                 (let dietary = truthy_str (dietary_preferences u);
                      spice = truthy_str (user_spice_level u);
                      q1 = (if dietary then by_dietary u (available_dishes d) else available_dishes d);
                      q2 = (if spice then by_spice u q1 else q1)
                  in (fetch limit q2,
                      \<lparr>cuisine_filter_applied = False,
                       dietary_filter_applied = (dietary \<or> dietary_filter_applied f0),
                       spice_filter_applied = (spice \<or> spice_filter_applied f0)\<rparr>))
               else (dishes0, f0));
            (dishes2, f2) =
              (if dishes1 = [] \<and> spice_filter_applied f1 then
                 (let q = (if dietary_filter_applied f1 \<and> truthy_str (dietary_preferences u)
                           then by_dietary u (available_dishes d) else available_dishes d)
                  in (fetch limit q, f1\<lparr>spice_filter_applied := False\<rparr>))
               else (dishes1, f1));
            (dishes3, f3) =
              (if dishes2 = [] \<and> dietary_filter_applied f2 then
                 (fetch limit (available_dishes d), f2\<lparr>dietary_filter_applied := False\<rparr>)
               else (dishes2, f2));
            dishes4 = (if dishes3 = [] then fetch limit (available_dishes d) else dishes3)
        in (dishes4, f3))"

text \<open>The dishes handed to the scorer, with the flags as the cascade leaves them.\<close>

definition candidate_dishes ::
  "db \<Rightarrow> user \<Rightarrow> string list \<Rightarrow> dish list \<Rightarrow> int \<Rightarrow> dish list \<times> flags" where
  "candidate_dishes d u prefs query limit =
     (let (query', f) = initial_query d u prefs query in fallback d u limit (fetch limit query', f))"

subsection \<open>Relevance scorer\<close>

text \<open>
  The loop over the preferred cuisines in the scorer: \<open>match_count\<close> is incremented at a
  match and the loop is left at once (\<open>break\<close>). It returns \<open>(match_count, cuisine_match)\<close>.
\<close>

fun cuisine_loop :: "string list \<Rightarrow> string \<Rightarrow> nat \<Rightarrow> nat \<times> bool" where
  "cuisine_loop [] specialty match_count = (match_count, False)"
| "cuisine_loop (user_cuisine # rest) specialty match_count =
     (if cuisine_matches user_cuisine specialty then (match_count + 1, True)
      else cuisine_loop rest specialty match_count)"

text \<open>The cuisine contribution and the flag \<open>dish_cuisine_matches\<close>.\<close>

definition cuisine_score :: "db \<Rightarrow> string list \<Rightarrow> dish \<Rightarrow> real \<times> bool" where
  "cuisine_score d prefs x =
     (if prefs \<noteq> [] then
        (case producer_get d (producer_id x) of
           None \<Rightarrow> (0, False)
         | Some p \<Rightarrow>
             if truthy_str (cuisine_specialty p) then
               (let (match_count, cuisine_match) = cuisine_loop prefs (the (cuisine_specialty p)) 0 in
                if cuisine_match then
                  (40 + (if match_count > 1 then 5 * (real match_count - 1) else 0), True)
                else (- 20, False))
             else (0, False))
      else (0, False))"

definition rating_score :: "dish \<Rightarrow> real" where
  "rating_score x = (case average_rating x of None \<Rightarrow> 0 | Some r \<Rightarrow> r) * 10"

definition popularity_score :: "dish \<Rightarrow> real" where
  "popularity_score x =
     min (real_of_int (case order_count x of None \<Rightarrow> 0 | Some n \<Rightarrow> n) * 0.1) 20
     + min (real_of_int (case view_count x of None \<Rightarrow> 0 | Some n \<Rightarrow> n) * 0.01) 10"

definition behaviour_score :: "db \<Rightarrow> user \<Rightarrow> dish \<Rightarrow> real" where
  "behaviour_score d u x =
     (if producer_id x \<in> set (ordered_producer_ids d u) then 25 else 0)
     + (if Some (dish_id x) \<in> set (liked_dish_ids d u) then 50 else 0)
     + (if dish_id x \<notin> set (ordered_dish_ids d u) then 5 else 0)"

definition dietary_score :: "user \<Rightarrow> bool \<Rightarrow> bool \<Rightarrow> dish \<Rightarrow> real" where
  "dietary_score u cuisine_filter dish_cuisine_matches x =
     (if truthy_str (dietary_preferences u) then
        (if truthy_str (dietary_type x)
            \<and> lower (the (dietary_type x)) = lower (the (dietary_preferences u))
         then (if cuisine_filter \<or> dish_cuisine_matches then 20 else 15)
         else if truthy_str (dietary_type x)
         then (if dish_cuisine_matches then - 5 else if cuisine_filter then - 10 else - 15)
         else 0)
      else 0)"

definition spice_score :: "user \<Rightarrow> bool \<Rightarrow> bool \<Rightarrow> dish \<Rightarrow> real" where
  "spice_score u cuisine_filter dish_cuisine_matches x =
     (if truthy_str (user_spice_level u) then
        (if truthy_str (spice_level x)
            \<and> lower (the (spice_level x)) = lower (the (user_spice_level u))
         then (if cuisine_filter \<or> dish_cuisine_matches then 15 else 12)
         else if truthy_str (spice_level x)
         then (if dish_cuisine_matches then - 2 else - 5)
         else 0)
      else 0)"

definition meal_score :: "user \<Rightarrow> dish \<Rightarrow> real" where
  "meal_score u x =
     (if meal_preferences_list u \<noteq> [] \<and> truthy_str (category x) then
        (let dish_category_lower = lower (the (category x)) in
         if list_ex (\<lambda>meal_pref. str_in (lower meal_pref) dish_category_lower
                                 \<or> str_in dish_category_lower (lower meal_pref))
              (meal_preferences_list u)
         then 15 else - 5)
      else 0)"

definition dish_price_gbp :: "dish \<Rightarrow> real" where
  "dish_price_gbp x =
     (if currency x = Some ''INR'' \<or> (currency x = None \<and> price x > 50) then price x / 100
      else price x)"

definition budget_score :: "user \<Rightarrow> dish \<Rightarrow> real" where
  "budget_score u x =
     (if truthy_str (budget_preference u) then
        (let budget_pref = lower (the (budget_preference u)); p = dish_price_gbp x in
         if budget_pref = ''low'' \<and> p \<le> 10 then 25
         else if budget_pref = ''medium'' \<and> 10 < p \<and> p \<le> 20 then 25
         else if budget_pref = ''high'' \<and> p > 20 then 25
         else if budget_pref = ''low'' \<and> p > 20 then - 40
         else if budget_pref = ''high'' \<and> p < 10 then - 15
         else 0)
      else 0)"

definition dairy_keywords :: "string list" where
  "dairy_keywords = [''dairy'', ''milk'', ''cream'', ''butter'', ''cheese'', ''yogurt'', ''curd'']"

definition jain_avoid :: "string list" where
  "jain_avoid = [''onion'', ''garlic'', ''root'', ''potato'', ''ginger'']"

definition restriction_score :: "user \<Rightarrow> dish \<Rightarrow> real" where
  "restriction_score u x =
     (if dietary_restrictions_list u \<noteq> [] then
        (let dish_desc = lower ((case description x of None \<Rightarrow> [] | Some t \<Rightarrow> t) @ '' ''
                                @ (case ingredients x of None \<Rightarrow> [] | Some t \<Rightarrow> t))
         in (if ''gluten-free'' \<in> set (dietary_restrictions_list u) \<and> str_in ''gluten'' dish_desc
             then - 50 else 0)
          + (if ''lactose-free'' \<in> set (dietary_restrictions_list u)
                \<and> list_ex (\<lambda>keyword. str_in keyword dish_desc) dairy_keywords
             then - 50 else 0)
          + (if ''jain'' \<in> set (dietary_restrictions_list u)
                \<and> list_ex (\<lambda>avoid. str_in avoid dish_desc) jain_avoid
             then - 50 else 0))
      else 0)"

text \<open>
  The allergen loops: each avoided allergen that is a substring of, or contains, some
  declared allergen of the dish (both lowercased) costs 60, once.
\<close>

definition allergen_hits :: "string \<Rightarrow> string list \<Rightarrow> bool" where
  "allergen_hits allergen declared =
     list_ex (\<lambda>dish_allergen. str_in (lower allergen) (lower dish_allergen)
                              \<or> str_in (lower dish_allergen) (lower allergen)) declared"

fun allergen_loop :: "string list \<Rightarrow> string list \<Rightarrow> real" where
  "allergen_loop [] declared = 0"
| "allergen_loop (allergen # rest) declared =
     (if allergen_hits allergen declared then - 60 else 0) + allergen_loop rest declared"

definition allergen_score :: "user \<Rightarrow> dish \<Rightarrow> real" where
  "allergen_score u x =
     (if allergens_list u \<noteq> [] \<and> dish_allergens x \<noteq> []
      then allergen_loop (allergens_list u) (dish_allergens x) else 0)"

text \<open>
  The score of a dish before the inclusion rule, with \<open>dish_cuisine_matches\<close>. The terms
  are added in the order of the source.
\<close>

definition compute_score :: "db \<Rightarrow> user \<Rightarrow> string list \<Rightarrow> flags \<Rightarrow> dish \<Rightarrow> real \<times> bool" where
  "compute_score d u prefs f x =
     (let (cuisine, dish_cuisine_matches) = cuisine_score d prefs x in
      (cuisine + rating_score x + popularity_score x + behaviour_score d u x
       + dietary_score u (cuisine_filter_applied f) dish_cuisine_matches x
       + spice_score u (cuisine_filter_applied f) dish_cuisine_matches x
       + meal_score u x + budget_score u x + restriction_score u x + allergen_score u x,
       dish_cuisine_matches))"

text \<open>
  The inclusion rule at the end of the loop body: the entry appended to \<open>scored_dishes\<close>,
  or \<open>None\<close> when the dish is left out.
\<close>

definition scored_entry ::
  "db \<Rightarrow> user \<Rightarrow> string list \<Rightarrow> flags \<Rightarrow> dish \<Rightarrow> (dish \<times> real) option" where
  "scored_entry d u prefs f x =
     (let (score, dish_cuisine_matches) = compute_score d u prefs f x in
      if dish_cuisine_matches then Some (x, if score < 20 then 20 else score)
      else if score > - 30 then Some (x, score)
      else None)"

fun scored_dishes ::
  "db \<Rightarrow> user \<Rightarrow> string list \<Rightarrow> flags \<Rightarrow> dish list \<Rightarrow> (dish \<times> real) list" where
  "scored_dishes d u prefs f [] = []"
| "scored_dishes d u prefs f (x # xs) =
     (case scored_entry d u prefs f x of
        None \<Rightarrow> scored_dishes d u prefs f xs
      | Some e \<Rightarrow> e # scored_dishes d u prefs f xs)"

subsection \<open>Result composer\<close>

text \<open>
  \<open>list.sort(key=lambda x: x[1], reverse=True)\<close>: by score, highest first, entries of equal
  score in their previous order.
\<close>

definition sort_by_score :: "('a \<times> real) list \<Rightarrow> ('a \<times> real) list" where
  "sort_by_score xs = sort_key (\<lambda>e. - snd e) xs"

definition is_cuisine_match :: "db \<Rightarrow> string list \<Rightarrow> dish \<Rightarrow> bool" where
  "is_cuisine_match d prefs x =
     (case producer_get d (producer_id x) of
        None \<Rightarrow> False
      | Some p \<Rightarrow> truthy_str (cuisine_specialty p) \<and>
          list_ex (\<lambda>user_cuisine. cuisine_matches (strip user_cuisine) (the (cuisine_specialty p)))
            prefs)"

definition cuisine_matched_list :: "db \<Rightarrow> string list \<Rightarrow> (dish \<times> real) list \<Rightarrow> (dish \<times> real) list" where
  "cuisine_matched_list d prefs scored =
     sort_by_score (filter (\<lambda>e. is_cuisine_match d prefs (fst e)) scored)"

definition other_dishes_list :: "db \<Rightarrow> string list \<Rightarrow> (dish \<times> real) list \<Rightarrow> (dish \<times> real) list" where
  "other_dishes_list d prefs scored =
     sort_by_score (filter (\<lambda>e. \<not> is_cuisine_match d prefs (fst e)) scored)"

definition top_dishes :: "db \<Rightarrow> string list \<Rightarrow> int \<Rightarrow> (dish \<times> real) list \<Rightarrow> dish list" where
  "top_dishes d prefs limit scored =
     (if prefs \<noteq> [] then
        (let chosen = map fst (py_take limit (cuisine_matched_list d prefs scored)) in
         if int (length chosen) < limit \<and> other_dishes_list d prefs scored \<noteq> [] then
           chosen @ map fst (py_take (limit - int (length chosen)) (other_dishes_list d prefs scored))
         else chosen)
      else map fst (py_take limit scored))"

text \<open>
  The closing fill-up. \<open>all_dishes_dict\<close> is the dictionary comprehension
  \<open>{d.id: d for d, s in scored_dishes}\<close>: a key keeps the place of its first insertion and
  the value of its last. \<open>score_of\<close> is the \<open>next(..., -100)\<close> lookup of a dish's score.
\<close>

fun dict_put :: "int \<Rightarrow> 'v \<Rightarrow> (int \<times> 'v) list \<Rightarrow> (int \<times> 'v) list" where
  "dict_put k v [] = [(k, v)]"
| "dict_put k v ((k', v') # kvs) =
     (if k = k' then (k, v) # kvs else (k', v') # dict_put k v kvs)"

definition all_dishes_dict :: "(dish \<times> real) list \<Rightarrow> (int \<times> dish) list" where
  "all_dishes_dict scored = foldl (\<lambda>acc e. dict_put (dish_id (fst e)) (fst e) acc) [] scored"

definition score_of :: "(dish \<times> real) list \<Rightarrow> dish \<Rightarrow> real" where
  "score_of scored x =
     (case find (\<lambda>e. dish_id (fst e) = dish_id x) scored of None \<Rightarrow> - 100 | Some e \<Rightarrow> snd e)"

definition fill_remaining :: "int \<Rightarrow> (dish \<times> real) list \<Rightarrow> dish list \<Rightarrow> dish list" where
  "fill_remaining limit scored chosen =
     (if int (length chosen) < limit then
        (let remaining_dishes = filter (\<lambda>x. x \<notin> set chosen) (map snd (all_dishes_dict scored));
             remaining_with_scores =
               sort_by_score (map (\<lambda>x. (x, score_of scored x)) remaining_dishes);
             remaining = map fst (filter (\<lambda>e. snd e > - 20) remaining_with_scores)
         in chosen @ py_take (limit - int (length chosen)) remaining)
      else chosen)"

subsection \<open>The pipeline\<close>

text \<open>
  Everything after step 1, on the query that step 1 leaves: filters and fallbacks, the early
  return when nothing is left, scoring, and composition.
\<close>

definition recommend_from_query ::
  "db \<Rightarrow> user \<Rightarrow> string list \<Rightarrow> dish list \<Rightarrow> int \<Rightarrow> dish list" where
  "recommend_from_query d u prefs query limit =
     (let (pool, f) = candidate_dishes d u prefs query limit
      in if pool = [] then sql_limit limit (order_by_rating_orders (available_dishes d))
         else
           (let scored = sort_by_score (scored_dishes d u prefs f pool)
            in fill_remaining limit scored (top_dishes d prefs limit scored)))"

text \<open>
  \<open>get_rule_based_recommendations(user, lat, lon, limit)\<close>. The result is the list of
  dishes that the source renders with \<open>to_dict\<close>.
\<close>

definition get_rule_based_recommendations ::
  "(string \<Rightarrow> json option) \<Rightarrow> db \<Rightarrow> user \<Rightarrow> real option \<Rightarrow> real option \<Rightarrow> int \<Rightarrow> dish list" where
  "get_rule_based_recommendations loads d u lat lon limit =
     recommend_from_query d u (get_preferred_cuisines_list loads u)
       (location_stage d lat lon (available_dishes d)) limit"

subsection \<open>Popular dishes\<close>

text \<open>
  \<open>get_popular_dishes\<close>, the public listing: the available dishes, of the producers within
  10 km when coordinates are given and some producer is that near, by rating, order count
  and view count, cut at \<open>limit\<close>.
\<close>

definition get_popular_dishes :: "db \<Rightarrow> real option \<Rightarrow> real option \<Rightarrow> int \<Rightarrow> dish list" where
  "get_popular_dishes d lat lon limit =
     (let query = available_dishes d;
          query' = (if truthy_num lat \<and> truthy_num lon then
                      (let nearby = nearby_producer_ids d lat lon 10 in
                       if nearby \<noteq> [] then filter (\<lambda>x. producer_id x \<in> set nearby) query
                       else query)
                    else query)
      in sql_limit limit (order_by_popularity query'))"

section \<open>Sample data\<close>

text \<open>
  Two kitchens in the manner of \<open>create_sample_data.py\<close>, one North Indian and one South
  Indian, with a dish each; a third dish declaring an allergen; and a few users. They are
  the concrete inputs of the examples below. \<open>sample_loads\<close> is \<open>json.loads\<close> on the
  texts that occur in them: the JSON arrays as \<open>json.dumps\<close> writes them parse, the plain text
  \<open>South Indian\<close> does not.
\<close>

definition ravi :: producer where
  "ravi = \<lparr>prod_id = 1, cuisine_specialty = Some ''North Indian'', latitude = None,
           longitude = None, status = Some ''approved'', is_active = True\<rparr>"

definition priya :: producer where
  "priya = \<lparr>prod_id = 2, cuisine_specialty = Some ''South Indian'', latitude = None,
            longitude = None, status = Some ''approved'', is_active = True\<rparr>"

definition butter_chicken :: dish where
  "butter_chicken = \<lparr>dish_id = 1, producer_id = 1, price = 350, currency = Some ''INR'',
     category = Some ''Dinner'', dietary_type = Some ''non-veg'', spice_level = Some ''medium'',
     dish_allergens = [''dairy''], description = Some ''Creamy tomato curry'', ingredients = None,
     is_available = True, average_rating = Some 4.5, view_count = Some 120,
     order_count = Some 30\<rparr>"

definition masala_dosa :: dish where
  "masala_dosa = \<lparr>dish_id = 2, producer_id = 2, price = 120, currency = Some ''INR'',
     category = Some ''Breakfast'', dietary_type = Some ''veg'', spice_level = Some ''mild'',
     dish_allergens = [], description = Some ''Crisp rice crepe'', ingredients = None,
     is_available = True, average_rating = Some 4.2, view_count = Some 80,
     order_count = Some 12\<rparr>"

definition peanut_chaat :: dish where
  "peanut_chaat = \<lparr>dish_id = 3, producer_id = 1, price = 90, currency = Some ''INR'',
     category = Some ''Snacks'', dietary_type = Some ''veg'', spice_level = Some ''hot'',
     dish_allergens = [''Peanuts''], description = None, ingredients = None,
     is_available = True, average_rating = None, view_count = None, order_count = None\<rparr>"

definition sample_loads :: "string \<Rightarrow> json option" where
  \<open>sample_loads =
     map_of [(''["South Indian"]'', JArray [''South Indian'']),
             (''["South Indian", "Tamil"]'', JArray [''South Indian'', ''Tamil'']),
             (''["Thai"]'', JArray [''Thai''])]\<close>

definition kitchen :: db where
  "kitchen = \<lparr>dishes = [butter_chicken, masala_dosa], producers = [ravi, priya], orders = [],
              reviews = []\<rparr>"

text \<open>The same two kitchens while the South Indian one still awaits approval.\<close>

definition market :: db where
  "market = \<lparr>dishes = [butter_chicken, masala_dosa],
             producers = [ravi, priya\<lparr>status := Some ''pending'', is_active := False\<rparr>],
             orders = [], reviews = []\<rparr>"

definition snack_bar :: db where
  "snack_bar = \<lparr>dishes = [peanut_chaat], producers = [ravi], orders = [], reviews = []\<rparr>"

definition asha :: user where
  \<open>asha = \<lparr>user_id = 7, dietary_preferences = Some ''veg'', user_spice_level = Some ''hot'',
     budget_preference = None, preferred_cuisines = Some ''["South Indian"]'',
     dietary_restrictions_list = [], allergens_list = [], meal_preferences_list = []\<rparr>\<close>


definition nut_avoider :: user where
  "nut_avoider = \<lparr>user_id = 9, dietary_preferences = None, user_spice_level = None,
     budget_preference = None, preferred_cuisines = None,
     dietary_restrictions_list = [], allergens_list = [''peanut''], meal_preferences_list = []\<rparr>"

text \<open>A user whose cuisine preference was stored as plain text, and one who has two.\<close>

definition walk_in :: user where
  "walk_in = \<lparr>user_id = 10, dietary_preferences = None, user_spice_level = None,
     budget_preference = None, preferred_cuisines = Some ''South Indian'',
     dietary_restrictions_list = [], allergens_list = [], meal_preferences_list = []\<rparr>"

definition tara :: user where
  \<open>tara = \<lparr>user_id = 11, dietary_preferences = None, user_spice_level = None,
     budget_preference = None, preferred_cuisines = Some ''["South Indian", "Tamil"]'',
     dietary_restrictions_list = [], allergens_list = [], meal_preferences_list = []\<rparr>\<close>

text \<open>
  A catalog whose only dish is an unrated vegetarian mild dish of the North Indian kitchen,
  and a user who prefers Thai cuisine, vegan food and hot spice, with no allergen, no
  dietary restriction and no budget.
\<close>

definition plain_khichdi :: dish where
  "plain_khichdi = \<lparr>dish_id = 4, producer_id = 1, price = 80, currency = Some ''INR'',
     category = Some ''Lunch'', dietary_type = Some ''veg'', spice_level = Some ''mild'',
     dish_allergens = [], description = None, ingredients = None,
     is_available = True, average_rating = None, view_count = None, order_count = None\<rparr>"

definition canteen :: db where
  "canteen = \<lparr>dishes = [plain_khichdi], producers = [ravi], orders = [], reviews = []\<rparr>"

definition mai :: user where
  \<open>mai = \<lparr>user_id = 12, dietary_preferences = Some ''vegan'', user_spice_level = Some ''hot'',
     budget_preference = None, preferred_cuisines = Some ''["Thai"]'',
     dietary_restrictions_list = [], allergens_list = [], meal_preferences_list = []\<rparr>\<close>


section \<open>Auxiliary facts\<close>

subsection \<open>The haversine term\<close>

text \<open>
  The number whose square root and arc sine the formula takes lies between 0 and 1 for any
  real coordinates, so over the reals \<open>math.sqrt\<close> and \<open>math.asin\<close> are applied inside
  their domains and the model needs no error for them.
\<close>

lemma sin_half_squared: "(sin (x / 2))\<^sup>2 = (1 - cos x) / (2::real)"
proof -
  have "cos x = cos (2 * (x / 2))" by simp
  also have "\<dots> = 1 - 2 * (sin (x / 2))\<^sup>2" by (rule cos_double_sin)
  finally show ?thesis by simp
qed

lemma haversine_argument:
  fixes p q y :: real
  defines "a \<equiv> (sin ((q - p) / 2))\<^sup>2 + cos p * cos q * (sin (y / 2))\<^sup>2"
  shows "0 \<le> a \<and> a \<le> 1"
proof -
  define A where "A = sin p * sin q"
  define B where "B = cos p * cos q"
  define t where "t = cos y"
  have t: "- 1 \<le> t" "t \<le> 1" by (simp_all add: t_def)
  have "cos (q - p) = B + A" by (simp add: cos_diff A_def B_def mult.commute)
  then have s: "- 1 \<le> B + A" "B + A \<le> 1"
    using cos_ge_minus_one [of "q - p"] cos_le_one [of "q - p"] by simp_all
  have "cos (q + p) = B - A" by (simp add: cos_add A_def B_def mult.commute)
  then have d: "- 1 \<le> B - A" "B - A \<le> 1"
    using cos_ge_minus_one [of "q + p"] cos_le_one [of "q + p"] by simp_all
  have "2 * a = (1 - cos (q - p)) + B * (1 - t)"
    unfolding a_def sin_half_squared by (simp add: B_def t_def field_simps)
  then have a: "2 * a = 1 - A - B * t"
    using \<open>cos (q - p) = B + A\<close> by (simp add: algebra_simps)
  have bt: "- \<bar>B\<bar> \<le> B * t \<and> B * t \<le> \<bar>B\<bar>"
  proof -
    have "\<bar>B * t\<bar> \<le> \<bar>B\<bar> * 1"
      unfolding abs_mult using t by (intro mult_left_mono) (auto simp: abs_le_iff)
    then show ?thesis by (simp add: abs_le_iff)
  qed
  have "- 1 \<le> A + B * t \<and> A + B * t \<le> 1"
  proof (cases "0 \<le> B")
    case True
    then have "\<bar>B\<bar> = B" by simp
    with bt s d show ?thesis by linarith
  next
    case False
    then have "\<bar>B\<bar> = - B" by simp
    with bt s d show ?thesis by linarith
  qed
  with a show ?thesis by linarith
qed

subsection \<open>Slices, limits and sorting\<close>

lemma set_py_take: "set (py_take n xs) \<subseteq> set xs"
  by (auto simp: py_take_def dest: in_set_takeD)


lemma py_take_all: "0 \<le> n \<Longrightarrow> int (length (py_take n xs)) < n \<Longrightarrow> py_take n xs = xs"
  by (simp add: py_take_def min_def split: if_splits)

lemma py_take_nil [simp]: "py_take n [] = []"
  by (simp add: py_take_def)

lemma set_sql_limit: "set (sql_limit n xs) \<subseteq> set xs"
  by (auto simp: sql_limit_def dest: in_set_takeD)

lemma sql_limit_nil_iff: "sql_limit n xs = [] \<longleftrightarrow> xs = [] \<or> n = 0"
  by (auto simp: sql_limit_def)

lemma set_order_by_popularity [simp]: "set (order_by_popularity xs) = set xs"
  by (simp add: order_by_popularity_def)

lemma order_by_popularity_nil_iff [simp]: "order_by_popularity xs = [] \<longleftrightarrow> xs = []"
  by (metis set_order_by_popularity set_empty)

lemma order_by_rating_orders_nil_iff [simp]: "order_by_rating_orders xs = [] \<longleftrightarrow> xs = []"
  unfolding order_by_rating_orders_def by (metis set_sort set_empty)

lemma set_order_by_rating_orders [simp]: "set (order_by_rating_orders xs) = set xs"
  by (simp add: order_by_rating_orders_def)

lemma set_fetch: "set (fetch limit q) \<subseteq> set q"
  using set_sql_limit [of "limit * 5" "order_by_popularity q"] by (simp add: fetch_def)

lemma fetch_nil_iff: "fetch limit q = [] \<longleftrightarrow> q = [] \<or> limit = 0"
  by (simp add: fetch_def sql_limit_nil_iff)

lemma set_sort_by_score [simp]: "set (sort_by_score xs) = set xs"
  by (simp add: sort_by_score_def)

lemma length_sort_by_score [simp]: "length (sort_by_score xs) = length xs"
  by (simp add: sort_by_score_def)

lemma sort_by_score_nil_iff [simp]: "sort_by_score xs = [] \<longleftrightarrow> xs = []"
  by (metis length_sort_by_score length_0_conv)

lemma sorted_sort_by_score: "sorted_wrt (\<lambda>a b. b \<le> a) (map snd (sort_by_score xs))"
proof -
  have "sorted (map (\<lambda>e. - snd e) (sort_by_score xs))"
    unfolding sort_by_score_def by (rule sorted_sort_key)
  then show ?thesis
    by (simp add: sorted_wrt_map sorted_map)
qed

subsection \<open>The filter cascade stays within the available dishes\<close>

lemma set_by_dietary: "set (by_dietary u q) \<subseteq> set q" by (auto simp: by_dietary_def)
lemma set_by_spice: "set (by_spice u q) \<subseteq> set q" by (auto simp: by_spice_def)

lemma set_dietary_spice_filters: "set (fst (dietary_spice_filters u q)) \<subseteq> set q"
  by (auto simp: dietary_spice_filters_def Let_def by_dietary_def by_spice_def)

lemma set_initial_query: "set (fst (initial_query d u prefs q)) \<subseteq> set q"
  using set_dietary_spice_filters [of u q] by (auto simp: initial_query_def Let_def)

lemma set_location_stage: "set (location_stage d lat lon q) \<subseteq> set q"
  by (auto simp: location_stage_def Let_def)

lemma set_fallback:
  assumes "set (fst st) \<subseteq> set (available_dishes d)"
  shows "set (fst (fallback d u limit st)) \<subseteq> set (available_dishes d)"
proof -
  have a: "set (fetch limit (by_dietary u (available_dishes d))) \<subseteq> set (available_dishes d)"
    using set_fetch set_by_dietary by blast
  have b: "set (fetch limit (by_spice u (available_dishes d))) \<subseteq> set (available_dishes d)"
    using set_fetch set_by_spice by blast
  have c: "set (fetch limit (by_spice u (by_dietary u (available_dishes d)))) \<subseteq> set (available_dishes d)"
    using set_fetch set_by_spice set_by_dietary by blast
  have e: "set (fetch limit (available_dishes d)) \<subseteq> set (available_dishes d)"
    by (rule set_fetch)
  obtain ds f0 where st: "st = (ds, f0)" by (cases st)
  show ?thesis
    using assms a b c e unfolding st fallback_def Let_def
    by (simp split: if_splits prod.splits) 
qed

lemma fallback_nonempty:
  assumes "available_dishes d \<noteq> []" "limit \<noteq> 0"
  shows "fst (fallback d u limit st) \<noteq> []"
proof -
  obtain ds f0 where st: "st = (ds, f0)" by (cases st)
  have e: "fetch limit (available_dishes d) \<noteq> []"
    using assms by (simp add: fetch_nil_iff)
  show ?thesis
    using e unfolding st fallback_def Let_def
    by (simp split: if_splits prod.splits)
qed

lemma fallback_empty:
  assumes "fst (fallback d u limit st) = []"
  shows "available_dishes d = [] \<or> limit = 0"
proof -
  obtain ds f0 where st: "st = (ds, f0)" by (cases st)
  have "fetch limit (available_dishes d) = []"
    using assms unfolding st fallback_def Let_def
    by (simp split: if_splits prod.splits)
  then show ?thesis by (simp add: fetch_nil_iff)
qed

lemma set_candidate_dishes:
  assumes "set q \<subseteq> set (available_dishes d)"
  shows "set (fst (candidate_dishes d u prefs q limit)) \<subseteq> set (available_dishes d)"
proof -
  obtain q' f where iq: "initial_query d u prefs q = (q', f)" by (cases "initial_query d u prefs q")
  have "set q' \<subseteq> set q" using set_initial_query [of d u prefs q] iq by simp
  then have "set (fst (fetch limit q', f)) \<subseteq> set (available_dishes d)"
    using set_fetch [of limit q'] assms by auto
  then show ?thesis
    unfolding candidate_dishes_def iq by (simp add: set_fallback)
qed

subsection \<open>Scoring and composition\<close>

lemma scored_entry_fst: "scored_entry d u prefs f x = Some e \<Longrightarrow> fst e = x"
proof -
  assume a: "scored_entry d u prefs f x = Some e"
  obtain sc m where cs: "compute_score d u prefs f x = (sc, m)"
    by (cases "compute_score d u prefs f x")
  from a show ?thesis
    by (auto simp add: scored_entry_def cs split: if_splits)
qed

lemma set_scored_dishes:
  "set (scored_dishes d u prefs f pool) = {e. fst e \<in> set pool \<and> scored_entry d u prefs f (fst e) = Some e}"
proof (induction pool)
  case Nil
  then show ?case by simp
next
  case (Cons x xs)
  show ?case
  proof (cases "scored_entry d u prefs f x")
    case None
    then have "set (scored_dishes d u prefs f (x # xs)) = set (scored_dishes d u prefs f xs)"
      by simp
    also have "\<dots> = {e. fst e \<in> set xs \<and> scored_entry d u prefs f (fst e) = Some e}"
      by (rule Cons.IH)
    also have "\<dots> = {e. fst e \<in> set (x # xs) \<and> scored_entry d u prefs f (fst e) = Some e}"
      using None by auto
    finally show ?thesis .
  next
    case (Some e)
    then have fe: "fst e = x" by (rule scored_entry_fst)
    have "set (scored_dishes d u prefs f (x # xs)) = insert e (set (scored_dishes d u prefs f xs))"
      using Some by simp
    also have "\<dots> = insert e {e. fst e \<in> set xs \<and> scored_entry d u prefs f (fst e) = Some e}"
      by (simp only: Cons.IH)
    also have "\<dots> = {e. fst e \<in> set (x # xs) \<and> scored_entry d u prefs f (fst e) = Some e}"
      using Some fe by auto
    finally show ?thesis .
  qed
qed

lemma scored_dishes_nil_iff:
  "scored_dishes d u prefs f pool = [] \<longleftrightarrow> (\<forall>x\<in>set pool. scored_entry d u prefs f x = None)"
proof (induction pool)
  case Nil
  then show ?case by simp
next
  case (Cons x xs)
  then show ?case by (cases "scored_entry d u prefs f x") simp_all
qed


lemma fst_py_take: "set (map fst (py_take n xs)) \<subseteq> fst ` set xs"
  using set_py_take [of n xs] by auto

lemma set_cuisine_matched_list [simp]:
  "set (cuisine_matched_list d prefs scored) = {e \<in> set scored. is_cuisine_match d prefs (fst e)}"
  by (auto simp: cuisine_matched_list_def)

lemma set_other_dishes_list [simp]:
  "set (other_dishes_list d prefs scored) = {e \<in> set scored. \<not> is_cuisine_match d prefs (fst e)}"
  by (auto simp: other_dishes_list_def)

lemma top_dishes_forms:
  "top_dishes d prefs limit scored = map fst (py_take limit scored)
   \<or> top_dishes d prefs limit scored = map fst (py_take limit (cuisine_matched_list d prefs scored))
   \<or> top_dishes d prefs limit scored =
        map fst (py_take limit (cuisine_matched_list d prefs scored))
        @ map fst (py_take (limit - int (length (py_take limit (cuisine_matched_list d prefs scored))))
                    (other_dishes_list d prefs scored))"
  by (simp add: top_dishes_def Let_def)

lemma set_top_dishes: "set (top_dishes d prefs limit scored) \<subseteq> fst ` set scored"
proof -
  have a: "set (map fst (py_take n (cuisine_matched_list d prefs scored))) \<subseteq> fst ` set scored" for n
    using fst_py_take [of n "cuisine_matched_list d prefs scored"] by auto
  have b: "set (map fst (py_take n (other_dishes_list d prefs scored))) \<subseteq> fst ` set scored" for n
    using fst_py_take [of n "other_dishes_list d prefs scored"] by auto
  have c: "set (map fst (py_take n scored)) \<subseteq> fst ` set scored" for n
    by (rule fst_py_take)
  from top_dishes_forms [of d prefs limit scored] show ?thesis
  proof (elim disjE)
    assume "top_dishes d prefs limit scored = map fst (py_take limit scored)"
    then show ?thesis using c by simp
  next
    assume "top_dishes d prefs limit scored = map fst (py_take limit (cuisine_matched_list d prefs scored))"
    then show ?thesis using a by simp
  next
    assume "top_dishes d prefs limit scored =
        map fst (py_take limit (cuisine_matched_list d prefs scored))
        @ map fst (py_take (limit - int (length (py_take limit (cuisine_matched_list d prefs scored))))
                    (other_dishes_list d prefs scored))"
    then show ?thesis using a b by (simp only: set_append le_sup_iff)
  qed
qed


lemma set_dict_put: "snd ` set (dict_put k v kvs) \<subseteq> insert v (snd ` set kvs)"
proof (induction kvs)
  case Nil
  then show ?case by simp
next
  case (Cons kv kvs)
  obtain k' v' where kv: "kv = (k', v')" by (cases kv)
  show ?case
  proof (cases "k = k'")
    case True
    then show ?thesis by (auto simp: kv)
  next
    case False
    then show ?thesis using Cons by (auto simp: kv)
  qed
qed

lemma set_all_dishes_dict_gen:
  "snd ` set (foldl (\<lambda>acc e. dict_put (dish_id (fst e)) (fst e) acc) acc0 scored)
     \<subseteq> snd ` set acc0 \<union> fst ` set scored"
proof (induction scored arbitrary: acc0)
  case Nil
  then show ?case by simp
next
  case (Cons e es)
  have "snd ` set (dict_put (dish_id (fst e)) (fst e) acc0) \<subseteq> insert (fst e) (snd ` set acc0)"
    by (rule set_dict_put)
  with Cons [of "dict_put (dish_id (fst e)) (fst e) acc0"] show ?case by auto
qed

lemma set_all_dishes_dict: "snd ` set (all_dishes_dict scored) \<subseteq> fst ` set scored"
  using set_all_dishes_dict_gen [of "[]" scored] by (simp add: all_dishes_dict_def)



lemma fill_remaining_noop:
  assumes "fst ` set scored \<subseteq> set chosen"
  shows "fill_remaining limit scored chosen = chosen"
proof -
  have "snd ` set (all_dishes_dict scored) \<subseteq> set chosen"
    using assms set_all_dishes_dict [of scored] by (rule_tac order_trans)
  then have "set (map snd (all_dishes_dict scored)) \<subseteq> set chosen"
    by (simp only: set_map)
  then have "filter (\<lambda>x. x \<notin> set chosen) (map snd (all_dishes_dict scored)) = []"
    by (simp only: filter_empty_conv) blast
  then show ?thesis
    by (simp add: fill_remaining_def sort_by_score_def)
qed




lemma top_dishes_covers:
  assumes "int (length (top_dishes d prefs limit scored)) < limit"
  shows "fst ` set scored \<subseteq> set (top_dishes d prefs limit scored)"
proof -
  have pos: "0 \<le> limit" using assms by linarith
  show ?thesis
  proof (cases "prefs = []")
    case True
    then have t: "top_dishes d prefs limit scored = map fst (py_take limit scored)"
      by (simp add: top_dishes_def)
    with assms have "py_take limit scored = scored"
      using pos by (intro py_take_all) simp_all
    with t show ?thesis by simp
  next
    case False
    define cm where "cm = cuisine_matched_list d prefs scored"
    define od where "od = other_dishes_list d prefs scored"
    define ms where "ms = py_take limit cm"
    define os where "os = py_take (limit - int (length ms)) od"
    have split: "fst ` set scored \<subseteq> fst ` set cm \<union> fst ` set od"
      unfolding cm_def od_def by auto
    show ?thesis
    proof (cases "int (length ms) < limit \<and> od \<noteq> []")
      case True
      then have t: "top_dishes d prefs limit scored = map fst ms @ map fst os"
        using False by (simp add: top_dishes_def Let_def ms_def os_def cm_def od_def)
      have m: "ms = cm" unfolding ms_def using pos True by (intro py_take_all) (simp_all add: ms_def)
      have "int (length os) < limit - int (length ms)" using assms t by simp
      then have o: "os = od" unfolding os_def by (intro py_take_all) (simp_all add: os_def)
      show ?thesis using split unfolding t m o by auto
    next
      case c: False
      then have t: "top_dishes d prefs limit scored = map fst ms"
        using False by (auto simp add: top_dishes_def Let_def ms_def os_def cm_def od_def)
      with assms have l: "int (length ms) < limit" by simp
      then have m: "ms = cm" unfolding ms_def using pos by (intro py_take_all) (simp_all add: ms_def)
      from c l have "od = []" by simp
      then show ?thesis using split unfolding t m by auto
    qed
  qed
qed

lemma fill_top_dishes:
  "fill_remaining limit scored (top_dishes d prefs limit scored) = top_dishes d prefs limit scored"
proof (cases "int (length (top_dishes d prefs limit scored)) < limit")
  case True
  then show ?thesis by (intro fill_remaining_noop top_dishes_covers)
next
  case False
  then show ?thesis by (simp add: fill_remaining_def)
qed

lemma recommend_from_query_cases:
  assumes "candidate_dishes d u prefs q limit = (pool, f)"
  shows "recommend_from_query d u prefs q limit =
     (if pool = [] then [] else top_dishes d prefs limit (sort_by_score (scored_dishes d u prefs f pool)))"
proof (cases "pool = []")
  case True
  obtain q' f' where iq: "initial_query d u prefs q = (q', f')" by (cases "initial_query d u prefs q")
  have "fst (fallback d u limit (fetch limit q', f')) = []"
    using assms True by (simp add: candidate_dishes_def iq)
  then have "available_dishes d = [] \<or> limit = 0" by (rule fallback_empty)
  then have "sql_limit limit (order_by_rating_orders (available_dishes d)) = []"
    by (auto simp: sql_limit_def order_by_rating_orders_def)
  then show ?thesis using True by (simp add: recommend_from_query_def assms)
next
  case False
  then show ?thesis by (simp add: recommend_from_query_def assms Let_def fill_top_dishes)
qed

lemma top_dishes_nil_iff:
  assumes "1 \<le> limit"
  shows "top_dishes d prefs limit scored = [] \<longleftrightarrow> scored = []"
proof
  assume "top_dishes d prefs limit scored = []"
  then have "int (length (top_dishes d prefs limit scored)) < limit" using assms by simp
  then have "fst ` set scored \<subseteq> set (top_dishes d prefs limit scored)" by (rule top_dishes_covers)
  with \<open>top_dishes d prefs limit scored = []\<close> show "scored = []" by simp
next
  assume "scored = []"
  then show "top_dishes d prefs limit scored = []"
    using set_top_dishes [of d prefs limit scored] by simp
qed

lemma candidate_dishes_nonempty:
  assumes "available_dishes d \<noteq> []" "limit \<noteq> 0"
  shows "fst (candidate_dishes d u prefs q limit) \<noteq> []"
proof -
  obtain q' f' where iq: "initial_query d u prefs q = (q', f')" by (cases "initial_query d u prefs q")
  show ?thesis unfolding candidate_dishes_def iq using assms by (simp add: fallback_nonempty)
qed


lemma cuisine_loop_count: "fst (cuisine_loop prefs specialty n) \<le> n + 1"
  by (induction prefs) auto

lemma cuisine_loop_match:
  "snd (cuisine_loop prefs sp n) \<longleftrightarrow> (\<exists>c \<in> set prefs. cuisine_matches c sp)"
  by (induction prefs) auto

lemma cuisine_score_flag:
  "snd (cuisine_score d prefs x) \<longleftrightarrow>
     (prefs \<noteq> [] \<and> (\<exists>p. producer_get d (producer_id x) = Some p \<and> truthy_str (cuisine_specialty p)
        \<and> (\<exists>c \<in> set prefs. cuisine_matches c (the (cuisine_specialty p)))))"
proof (cases "prefs \<noteq> [] \<and> (\<exists>p. producer_get d (producer_id x) = Some p \<and> truthy_str (cuisine_specialty p))")
  case True
  then obtain p where p: "prefs \<noteq> []" "producer_get d (producer_id x) = Some p"
    "truthy_str (cuisine_specialty p)" by blast
  obtain n m where l: "cuisine_loop prefs (the (cuisine_specialty p)) 0 = (n, m)"
    by (cases "cuisine_loop prefs (the (cuisine_specialty p)) 0")
  have "m \<longleftrightarrow> (\<exists>c \<in> set prefs. cuisine_matches c (the (cuisine_specialty p)))"
    using cuisine_loop_match [of prefs "the (cuisine_specialty p)" 0] l by simp
  moreover have "snd (cuisine_score d prefs x) = m"
    using p l by (simp add: cuisine_score_def)
  ultimately show ?thesis using p by simp
next
  case False
  then have "snd (cuisine_score d prefs x) = False"
    by (auto simp: cuisine_score_def split: option.splits)
  with False show ?thesis by auto
qed

lemma compute_score_flag: "snd (compute_score d u prefs f x) = snd (cuisine_score d prefs x)"
  by (simp add: compute_score_def Let_def split: prod.splits)


lemma allergen_loop_nonpos: "allergen_loop as declared \<le> 0"
  by (induction as) auto

lemma allergen_loop_hit:
  "\<exists>a \<in> set as. allergen_hits a declared \<Longrightarrow> allergen_loop as declared \<le> - 60"
proof (induction as)
  case Nil
  then show ?case by simp
next
  case (Cons a as)
  show ?case
  proof (cases "allergen_hits a declared")
    case True
    then show ?thesis using allergen_loop_nonpos [of as declared] by simp
  next
    case False
    with Cons show ?thesis by simp
  qed
qed

lemma allergen_loop_clean:
  "\<forall>a \<in> set as. \<not> allergen_hits a declared \<Longrightarrow> allergen_loop as declared = 0"
  by (induction as) auto

lemma allergen_hits_nil [simp]: "\<not> allergen_hits a []"
  by (simp add: allergen_hits_def)


lemma haversine_zero_none:
  assumes "Some 0 \<in> set [lat1, lon1, lat2, lon2]"
  shows "calculate_distance_haversine lat1 lon1 lat2 lon2 = None"
  using assms by (auto simp: calculate_distance_haversine_def truthy_num_def)

lemma location_stage_falsy:
  assumes "\<not> truthy_num lat \<or> \<not> truthy_num lon"
  shows "location_stage d lat lon query = query"
  using assms by (auto simp: location_stage_def)

lemma sorted_desc_take:
  "sorted_wrt (\<lambda>a b. b \<le> a) (map snd xs) \<Longrightarrow> sorted_wrt (\<lambda>a b. b \<le> (a::real)) (map snd (py_take n xs))"
  by (simp add: py_take_def take_map [symmetric] sorted_wrt_take del: take_map)

lemma sorted_cuisine_matched_list:
  "sorted_wrt (\<lambda>a b. b \<le> a) (map snd (cuisine_matched_list d prefs scored))"
  unfolding cuisine_matched_list_def by (rule sorted_sort_by_score)

lemma sorted_other_dishes_list:
  "sorted_wrt (\<lambda>a b. b \<le> a) (map snd (other_dishes_list d prefs scored))"
  unfolding other_dishes_list_def by (rule sorted_sort_by_score)

lemma length_cuisine_matched_list:
  "length (cuisine_matched_list d prefs scored)
     = length (filter (\<lambda>e. is_cuisine_match d prefs (fst e)) scored)"
  by (simp add: cuisine_matched_list_def)

text \<open>The composition for a user with cuisine preferences, as two score-sorted runs.\<close>

lemma top_dishes_partition:
  assumes "prefs \<noteq> []"
  shows "\<exists>ms os. top_dishes d prefs limit scored = map fst ms @ map fst os
     \<and> ms = py_take limit (cuisine_matched_list d prefs scored)
     \<and> set os \<subseteq> {e \<in> set scored. \<not> is_cuisine_match d prefs (fst e)}
     \<and> sorted_wrt (\<lambda>a b. b \<le> a) (map snd os)
     \<and> (os \<noteq> [] \<longrightarrow> ms = cuisine_matched_list d prefs scored)"
proof -
  define cm where "cm = cuisine_matched_list d prefs scored"
  define od where "od = other_dishes_list d prefs scored"
  define ms where "ms = py_take limit cm"
  define os where "os = py_take (limit - int (length ms)) od"
  show ?thesis
  proof (cases "int (length ms) < limit \<and> od \<noteq> []")
    case True
    then have t: "top_dishes d prefs limit scored = map fst ms @ map fst os"
      using assms by (simp add: top_dishes_def Let_def ms_def os_def cm_def od_def)
    have pos: "0 \<le> limit" using True by linarith
    have m: "ms = cm" unfolding ms_def using pos True by (intro py_take_all) (simp_all add: ms_def)
    have so: "set os \<subseteq> {e \<in> set scored. \<not> is_cuisine_match d prefs (fst e)}"
      using set_py_take [of "limit - int (length ms)" od] by (simp add: os_def od_def)
    have sorted: "sorted_wrt (\<lambda>a b. b \<le> a) (map snd os)"
      unfolding os_def od_def by (intro sorted_desc_take sorted_other_dishes_list)
    show ?thesis
      using t m so sorted unfolding ms_def cm_def by blast
  next
    case False
    then have "top_dishes d prefs limit scored = map fst ms"
      unfolding top_dishes_def Let_def using assms by (auto simp add: ms_def cm_def od_def)
    then have t: "top_dishes d prefs limit scored = map fst ms @ map fst []"
      by simp
    have m: "ms = py_take limit (cuisine_matched_list d prefs scored)"
      by (simp add: ms_def cm_def)
    show ?thesis
      by (rule exI [of _ ms], rule exI [of _ "[]"]) (use t m in simp)
  qed
qed


subsection \<open>Splitting and stripping\<close>

lemma strip_nil_iff: "strip s = [] \<longleftrightarrow> (\<forall>c \<in> set s. is_space c)"
proof -
  have "strip s = [] \<longleftrightarrow> dropWhile is_space (rev (dropWhile is_space s)) = []"
    by (simp add: strip_def)
  also have "\<dots> \<longleftrightarrow> (\<forall>c \<in> set (rev (dropWhile is_space s)). is_space c)"
    by (rule dropWhile_eq_Nil_conv)
  also have "\<dots> \<longleftrightarrow> (\<forall>c \<in> set (dropWhile is_space s). is_space c)"
    by (simp only: set_rev)
  also have "\<dots> \<longleftrightarrow> dropWhile is_space s = []"
  proof
    assume a: "\<forall>c \<in> set (dropWhile is_space s). is_space c"
    show "dropWhile is_space s = []"
    proof (rule ccontr)
      assume n: "dropWhile is_space s \<noteq> []"
      then have "\<not> is_space (hd (dropWhile is_space s))" by (rule hd_dropWhile)
      moreover have "hd (dropWhile is_space s) \<in> set (dropWhile is_space s)" using n by simp
      ultimately show False using a by blast
    qed
  next
    assume "dropWhile is_space s = []"
    then show "\<forall>c \<in> set (dropWhile is_space s). is_space c"
      by (metis empty_iff empty_set)
  qed
  also have "\<dots> \<longleftrightarrow> (\<forall>c \<in> set s. is_space c)"
    by (simp add: dropWhile_eq_Nil_conv)
  finally show ?thesis .
qed

lemma concat_split_on_acc:
  "concat (split_on_acc sep acc s) = acc @ filter (\<lambda>c. c \<noteq> sep) s"
  by (induction s arbitrary: acc) auto

lemma concat_split_on: "concat (split_on sep s) = filter (\<lambda>c. c \<noteq> sep) s"
  by (simp add: split_on_def concat_split_on_acc)

lemma all_pieces_blank:
  "(\<forall>p \<in> set (split_on sep s). strip p = []) \<longleftrightarrow> (\<forall>c \<in> set s. is_space c \<or> c = sep)"
proof -
  have "(\<forall>p \<in> set (split_on sep s). strip p = [])
        \<longleftrightarrow> (\<forall>c \<in> set (concat (split_on sep s)). is_space c)"
    by (auto simp: strip_nil_iff)
  also have "\<dots> \<longleftrightarrow> (\<forall>c \<in> set s. is_space c \<or> c = sep)"
    by (auto simp: concat_split_on)
  finally show ?thesis .
qed


subsection \<open>The sample data, evaluated\<close>

lemma recommendations_without_coordinates:
  "get_rule_based_recommendations loads d u None None limit
     = recommend_from_query d u (get_preferred_cuisines_list loads u) (available_dishes d) limit"
  by (simp add: get_rule_based_recommendations_def location_stage_def truthy_num_def)

lemma location_stage_without_coordinates: "location_stage d None None query = query"
  by (simp add: location_stage_def truthy_num_def)


lemma nut_avoider_prefs: "get_preferred_cuisines_list loads nut_avoider = []"
  by (simp add: get_preferred_cuisines_list_def nut_avoider_def truthy_str_def)

lemma asha_prefs: "get_preferred_cuisines_list sample_loads asha = [''South Indian'']"
  by code_simp

lemma tara_prefs: "get_preferred_cuisines_list sample_loads tara = [''South Indian'', ''Tamil'']"
  by code_simp

lemma walk_in_raw: "preferred_cuisines walk_in = Some ''South Indian''"
  by (simp add: walk_in_def)

lemma sample_loads_plain: "sample_loads ''South Indian'' = None"
  by code_simp

lemma walk_in_prefs: "get_preferred_cuisines_list sample_loads walk_in = [''South Indian'']"
  by code_simp



lemma kitchen_dishes_available: "is_available butter_chicken" "is_available masala_dosa"
  by (simp_all add: butter_chicken_def masala_dosa_def)

lemma kitchen_asha_candidates:
  "candidate_dishes kitchen asha [''South Indian''] (available_dishes kitchen) 10
     = ([masala_dosa], \<lparr>cuisine_filter_applied = True, dietary_filter_applied = False,
                        spice_filter_applied = False\<rparr>)"
  by code_simp

lemma kitchen_asha_dosa_score:
  "compute_score kitchen asha [''South Indian'']
     \<lparr>cuisine_filter_applied = True, dietary_filter_applied = False, spice_filter_applied = False\<rparr>
     masala_dosa = (107, True)"
  by code_simp

lemma walk_in_candidates:
  "cuisine_filter_applied
     (snd (candidate_dishes kitchen walk_in [''South Indian''] (available_dishes kitchen) 10))"
  by code_simp

lemma walk_in_result:
  "recommend_from_query kitchen walk_in [''South Indian''] (available_dishes kitchen) 10
     = [masala_dosa]"
  by code_simp

lemma snack_bar_scores:
  "compute_score snack_bar nut_avoider []
     \<lparr>cuisine_filter_applied = False, dietary_filter_applied = False, spice_filter_applied = False\<rparr>
     peanut_chaat = (- 55, False)"
  "compute_score snack_bar nut_avoider []
     \<lparr>cuisine_filter_applied = False, dietary_filter_applied = False, spice_filter_applied = False\<rparr>
     (peanut_chaat\<lparr>dish_allergens := []\<rparr>) = (5, False)"
  by code_simp+

lemma peanut_hit: "allergen_hits ''peanut'' [''Peanuts'']"
  by code_simp

lemma market_tara_candidates:
  "candidate_dishes market tara [''South Indian'', ''Tamil''] (available_dishes market) 10
     = ([butter_chicken, masala_dosa],
        \<lparr>cuisine_filter_applied = False, dietary_filter_applied = False,
         spice_filter_applied = False\<rparr>)"
  by code_simp

lemma market_tara_result:
  "recommend_from_query market tara [''South Indian'', ''Tamil''] (available_dishes market) 10
     = [masala_dosa, butter_chicken]"
  by code_simp

lemma market_matches:
  "is_cuisine_match market [''South Indian'', ''Tamil''] masala_dosa"
  "\<not> is_cuisine_match market [''South Indian'', ''Tamil''] butter_chicken"
  by code_simp+

lemma market_dosa_score:
  "compute_score market tara [''South Indian'', ''Tamil'']
     \<lparr>cuisine_filter_applied = False, dietary_filter_applied = False, spice_filter_applied = False\<rparr>
     masala_dosa = (89, True)"
  by code_simp

lemma mai_prefs: "get_preferred_cuisines_list sample_loads mai = [''Thai'']"
  by code_simp

lemma canteen_candidates:
  "fst (candidate_dishes canteen mai [''Thai''] (available_dishes canteen) 10) = [plain_khichdi]"
  by code_simp

lemma canteen_score:
  "compute_score canteen mai [''Thai'']
     \<lparr>cuisine_filter_applied = False, dietary_filter_applied = False, spice_filter_applied = False\<rparr>
     plain_khichdi = (- 35, False)"
  by code_simp

lemma canteen_result:
  "recommend_from_query canteen mai [''Thai''] (available_dishes canteen) 10 = []"
  by code_simp

section \<open>Properties of the cuisine matcher\<close>

text \<open>
  Claim C4. If, after lowercasing and trimming, one of the two cuisine names contains
  \<open>north\<close> and the other contains \<open>south\<close>, then \<open>cuisine_matches\<close> returns false: the check
  comes before the group table, the exact comparison, the containment tests and the word
  overlap, so none of them is reached.
\<close>

theorem cuisine_matches_north_south_conflict:
  assumes "(str_in ''north'' (strip (lower u)) \<and> str_in ''south'' (strip (lower v)))
         \<or> (str_in ''south'' (strip (lower u)) \<and> str_in ''north'' (strip (lower v)))"
  shows "cuisine_matches u v = False"
proof (cases "u = [] \<or> v = []")
  case True
  then show ?thesis by (simp add: cuisine_matches_def)
next
  case False
  then have "normalize_cuisine_name u = strip (lower u)" "normalize_cuisine_name v = strip (lower v)"
    by (simp_all add: normalize_cuisine_name_def)
  with assms False show ?thesis
    by (auto simp: cuisine_matches_def Let_def)
qed

text \<open>
  The two examples of the claim: "South Indian" against "North Indian", and
  "North Indian Punjabi" against "South Indian Kerala", which share the word "indian".
\<close>

theorem cuisine_matches_north_south_conflict_witness:
  "str_in ''south'' (strip (lower ''South Indian''))
   \<and> str_in ''north'' (strip (lower ''North Indian''))
   \<and> cuisine_matches ''South Indian'' ''North Indian'' = False
   \<and> str_in ''north'' (strip (lower ''North Indian Punjabi''))
   \<and> str_in ''south'' (strip (lower ''South Indian Kerala''))
   \<and> cuisine_matches ''North Indian Punjabi'' ''South Indian Kerala'' = False"
proof -
  have s1: "str_in ''south'' (strip (lower ''South Indian''))" by code_simp
  have n1: "str_in ''north'' (strip (lower ''North Indian''))" by code_simp
  have n2: "str_in ''north'' (strip (lower ''North Indian Punjabi''))" by code_simp
  have s2: "str_in ''south'' (strip (lower ''South Indian Kerala''))" by code_simp
  from s1 n1 have c1: "cuisine_matches ''South Indian'' ''North Indian'' = False"
    by (intro cuisine_matches_north_south_conflict) simp
  from n2 s2 have c2: "cuisine_matches ''North Indian Punjabi'' ''South Indian Kerala'' = False"
    by (intro cuisine_matches_north_south_conflict) simp
  from s1 n1 n2 s2 c1 c2 show ?thesis by simp
qed


section \<open>Properties of the distance estimator and the location stage\<close>

text \<open>
  Claim C7. The claim says that \<open>calculate_distance_haversine\<close> returns the unknown value
  exactly when a coordinate is missing. The guard \<open>not all([lat1, lon1, lat2, lon2])\<close> also
  fires on a coordinate that is present and equal to zero: for a point on the equator
  (latitude 0, longitude 77.59) and Bengaluru (12.97, 77.59), all four coordinates
  supplied, the function returns \<open>None\<close> and no distance.
\<close>

theorem haversine_equator_unknown:
  "calculate_distance_haversine (Some 0) (Some 77.59) (Some 12.97) (Some 77.59) = None"
  by (simp add: calculate_distance_haversine_def truthy_num_def)

text \<open>
  Claim C10. A recommendation call whose latitude or longitude is 0 behaves as the call
  without coordinates: the location stage leaves the query as it is, and the result is that
  of the same call with both coordinates absent; so does the popular listing; and
  \<open>calculate_distance_haversine\<close> returns \<open>None\<close> as soon as one coordinate of either point
  is 0.
\<close>

theorem zero_coordinate_as_absent:
  assumes "lat = Some 0 \<or> lon = Some 0"
  shows "location_stage d lat lon query = query
       \<and> get_rule_based_recommendations loads d u lat lon limit
           = get_rule_based_recommendations loads d u None None limit
       \<and> get_popular_dishes d lat lon limit = get_popular_dishes d None None limit
       \<and> calculate_distance_haversine lat lon lat2 lon2 = None
       \<and> calculate_distance_haversine lat1 lon1 lat lon = None"
proof -
  from assms have f: "\<not> truthy_num lat \<or> \<not> truthy_num lon"
    by (auto simp: truthy_num_def)
  have n: "\<not> truthy_num None" by (simp add: truthy_num_def)
  from f have l: "location_stage d lat lon q = q" for q
    by (rule location_stage_falsy)
  have l0: "location_stage d None None q = q" for q
    using n by (simp add: location_stage_falsy)
  have h1: "calculate_distance_haversine lat lon lat2 lon2 = None"
    using assms by (intro haversine_zero_none) auto
  have h2: "calculate_distance_haversine lat1 lon1 lat lon = None"
    using assms by (intro haversine_zero_none) auto
  have p: "get_popular_dishes d lat lon limit = get_popular_dishes d None None limit"
    using f n by (auto simp: get_popular_dishes_def)
  show ?thesis
    using l l0 h1 h2 p by (simp add: get_rule_based_recommendations_def)
qed

theorem zero_coordinate_as_absent_witness:
  "location_stage kitchen (Some 0) (Some 77.59) (available_dishes kitchen) = available_dishes kitchen
   \<and> get_rule_based_recommendations sample_loads kitchen asha (Some 0) (Some 77.59) 10
       = get_rule_based_recommendations sample_loads kitchen asha None None 10
   \<and> get_popular_dishes kitchen (Some 0) (Some 77.59) 10 = get_popular_dishes kitchen None None 10
   \<and> calculate_distance_haversine (Some 0) (Some 77.59) (Some 12.97) (Some 77.59) = None
   \<and> calculate_distance_haversine (Some 12.97) (Some 77.59) (Some 0) (Some 77.59) = None"
  using zero_coordinate_as_absent [of "Some 0" "Some 77.59" kitchen "available_dishes kitchen"
      sample_loads asha 10 "Some 12.97" "Some 77.59" "Some 12.97" "Some 77.59"]
  by simp

section \<open>Properties of the relevance scorer\<close>

text \<open>
  Claim C2. The claim promises 40 for a cuisine match and 5 more for every further
  preferred cuisine that matches the same kitchen. The loop leaves at its first match, so
  \<open>match_count\<close> never exceeds 1 and the bonus \<open>5 * (match_count - 1)\<close> is never added: for
  the preferences "South Indian" and "Tamil", which both match the specialty
  "South Indian" of the kitchen of \<open>masala_dosa\<close>, the contribution is 40 and not 45.
\<close>

theorem cuisine_bonus_two_matches:
  "cuisine_matches ''South Indian'' ''South Indian''
   \<and> cuisine_matches ''Tamil'' ''South Indian''
   \<and> cuisine_score kitchen [''South Indian'', ''Tamil''] masala_dosa = (40, True)"
  by code_simp

text \<open>
  More generally \<open>match_count\<close> is at most 1 after the loop, so the cuisine contribution is
  40, -20 or nothing, whatever the data.
\<close>

lemma cuisine_score_values: "fst (cuisine_score d prefs x) \<in> {40, - 20, 0}"
proof (cases "prefs \<noteq> [] \<and> (\<exists>p. producer_get d (producer_id x) = Some p \<and> truthy_str (cuisine_specialty p))")
  case True
  then obtain p where p: "prefs \<noteq> []" "producer_get d (producer_id x) = Some p"
    "truthy_str (cuisine_specialty p)" by blast
  obtain n m where l: "cuisine_loop prefs (the (cuisine_specialty p)) 0 = (n, m)"
    by (cases "cuisine_loop prefs (the (cuisine_specialty p)) 0")
  have "n \<le> 1" using cuisine_loop_count [of prefs "the (cuisine_specialty p)" 0] l by simp
  then show ?thesis using p l by (simp add: cuisine_score_def)
next
  case False
  then show ?thesis by (auto simp: cuisine_score_def split: option.splits)
qed

text \<open>
  Claim C3. For a dish \<open>x\<close> of the pool with computed score \<open>score\<close>: the flag
  \<open>dish_cuisine_matches\<close> holds exactly when the user has preferred cuisines and one of
  them matches the specialty of the dish's kitchen; if it holds, the dish is among the
  scored candidates, with the score \<open>max score 20\<close>; if it does not, the dish is among them
  exactly when \<open>score > -30\<close>, and then with \<open>score\<close>.
\<close>

theorem inclusion_rule:
  assumes "x \<in> set pool"
      and "compute_score d u prefs f x = (score, dish_cuisine_matches)"
  shows "(dish_cuisine_matches \<longleftrightarrow>
            prefs \<noteq> [] \<and> (\<exists>p. producer_get d (producer_id x) = Some p
               \<and> truthy_str (cuisine_specialty p)
               \<and> (\<exists>c \<in> set prefs. cuisine_matches c (the (cuisine_specialty p)))))
       \<and> {s. (x, s) \<in> set (scored_dishes d u prefs f pool)} =
           (if dish_cuisine_matches then {max score 20}
            else if score > - 30 then {score} else {})"
proof -
  have flag: "dish_cuisine_matches = snd (cuisine_score d prefs x)"
    using assms(2) compute_score_flag [of d u prefs f x] by simp
  have entry: "scored_entry d u prefs f x =
      (if dish_cuisine_matches then Some (x, max score 20)
       else if score > - 30 then Some (x, score) else None)"
    using assms(2) by (simp add: scored_entry_def max_def)
  have "{s. (x, s) \<in> set (scored_dishes d u prefs f pool)}
        = {s. scored_entry d u prefs f x = Some (x, s)}"
    using assms(1) by (simp add: set_scored_dishes)
  also have "\<dots> = (if dish_cuisine_matches then {max score 20}
            else if score > - 30 then {score} else {})"
    unfolding entry by auto
  finally show ?thesis using flag cuisine_score_flag [of d prefs x] by simp
qed

theorem inclusion_rule_witness:
  "masala_dosa \<in> set [butter_chicken, masala_dosa]
   \<and> compute_score market tara [''South Indian'', ''Tamil'']
        \<lparr>cuisine_filter_applied = False, dietary_filter_applied = False,
         spice_filter_applied = False\<rparr> masala_dosa = (89, True)
   \<and> {s. (masala_dosa, s) \<in> set (scored_dishes market tara [''South Indian'', ''Tamil'']
          \<lparr>cuisine_filter_applied = False, dietary_filter_applied = False,
           spice_filter_applied = False\<rparr> [butter_chicken, masala_dosa])} = {89}"
  using inclusion_rule [of masala_dosa "[butter_chicken, masala_dosa]" market tara
      "[''South Indian'', ''Tamil'']"
      "\<lparr>cuisine_filter_applied = False, dietary_filter_applied = False,
        spice_filter_applied = False\<rparr>" 89 True]
    market_dosa_score
  by simp

text \<open>
  Claim C9. Take two dishes that agree in every scoring input except the declared
  allergens (the first dish is the second with other declared allergens, and possibly
  another id that the behaviour signals do not tell apart). If some avoided allergen of the
  user hits a declared allergen of the first (one contains the other, case ignored) and
  none hits the second, the first scores at least 60 less; and if that leaves it at -30 or
  below without a cuisine match, it is not among the scored candidates of any pool.
\<close>

theorem allergen_penalty:
  assumes "x1 = x2\<lparr>dish_allergens := declared, dish_id := i\<rparr>"
      and "(Some i \<in> set (liked_dish_ids d u)) = (Some (dish_id x2) \<in> set (liked_dish_ids d u))"
      and "(i \<in> set (ordered_dish_ids d u)) = (dish_id x2 \<in> set (ordered_dish_ids d u))"
      and "\<exists>a \<in> set (allergens_list u). allergen_hits a declared"
      and "\<forall>a \<in> set (allergens_list u). \<not> allergen_hits a (dish_allergens x2)"
  shows "fst (compute_score d u prefs f x1) \<le> fst (compute_score d u prefs f x2) - 60
       \<and> (\<not> snd (compute_score d u prefs f x1) \<and> fst (compute_score d u prefs f x1) \<le> - 30
            \<longrightarrow> (\<forall>s. (x1, s) \<notin> set (scored_dishes d u prefs f pool)))"
proof -
  have a1: "allergen_score u x1 \<le> - 60"
  proof -
    from assms(4) have "allergens_list u \<noteq> []" "declared \<noteq> []"
      by (auto simp: allergen_hits_def)
    then show ?thesis using allergen_loop_hit [OF assms(4)] by (simp add: allergen_score_def assms(1))
  qed
  have a2: "allergen_score u x2 = 0"
    using allergen_loop_clean [OF assms(5)] by (simp add: allergen_score_def)
  have c: "cuisine_score d prefs x1 = cuisine_score d prefs x2"
    by (simp add: cuisine_score_def assms(1))
  have rest: "rating_score x1 = rating_score x2" "popularity_score x1 = popularity_score x2"
    "behaviour_score d u x1 = behaviour_score d u x2"
    "dietary_score u cf m x1 = dietary_score u cf m x2"
    "spice_score u cf m x1 = spice_score u cf m x2"
    "meal_score u x1 = meal_score u x2" "budget_score u x1 = budget_score u x2"
    "restriction_score u x1 = restriction_score u x2" for cf m
    using assms(2,3)
    by (simp_all add: assms(1) rating_score_def popularity_score_def behaviour_score_def
        dietary_score_def spice_score_def meal_score_def budget_score_def dish_price_gbp_def
        restriction_score_def)
  have diff: "fst (compute_score d u prefs f x1) \<le> fst (compute_score d u prefs f x2) - 60"
    using a1 a2 by (simp add: compute_score_def c rest Let_def split: prod.splits)
  have excl: "(x1, s) \<notin> set (scored_dishes d u prefs f pool)"
    if "\<not> snd (compute_score d u prefs f x1)" "fst (compute_score d u prefs f x1) \<le> - 30" for s
  proof -
    obtain sc m where cs: "compute_score d u prefs f x1 = (sc, m)"
      by (cases "compute_score d u prefs f x1")
    have "scored_entry d u prefs f x1 = None"
      using that by (simp add: scored_entry_def cs)
    then show ?thesis by (simp add: set_scored_dishes)
  qed
  from diff excl show ?thesis by blast
qed

theorem allergen_penalty_witness:
  "peanut_chaat = (peanut_chaat\<lparr>dish_allergens := []\<rparr>)\<lparr>dish_allergens := [''Peanuts''], dish_id := 3\<rparr>
   \<and> allergen_hits ''peanut'' [''Peanuts'']
   \<and> fst (compute_score snack_bar nut_avoider []
        \<lparr>cuisine_filter_applied = False, dietary_filter_applied = False,
         spice_filter_applied = False\<rparr> peanut_chaat) = - 55
   \<and> fst (compute_score snack_bar nut_avoider []
        \<lparr>cuisine_filter_applied = False, dietary_filter_applied = False,
         spice_filter_applied = False\<rparr> (peanut_chaat\<lparr>dish_allergens := []\<rparr>)) = 5
   \<and> (\<forall>s. (peanut_chaat, s) \<notin> set (scored_dishes snack_bar nut_avoider []
        \<lparr>cuisine_filter_applied = False, dietary_filter_applied = False,
         spice_filter_applied = False\<rparr> [peanut_chaat]))"
proof -
  have upd: "peanut_chaat
      = (peanut_chaat\<lparr>dish_allergens := []\<rparr>)\<lparr>dish_allergens := [''Peanuts''], dish_id := 3\<rparr>"
    by (simp add: peanut_chaat_def)
  have same_id: "dish_id (peanut_chaat\<lparr>dish_allergens := []\<rparr>) = 3"
    by (simp add: peanut_chaat_def)
  have hit: "\<exists>a \<in> set (allergens_list nut_avoider). allergen_hits a [''Peanuts'']"
    using peanut_hit by (simp add: nut_avoider_def)
  have clean: "\<forall>a \<in> set (allergens_list nut_avoider).
      \<not> allergen_hits a (dish_allergens (peanut_chaat\<lparr>dish_allergens := []\<rparr>))"
    by simp
  from allergen_penalty [OF upd _ _ hit clean, of snack_bar "[]"
      "\<lparr>cuisine_filter_applied = False, dietary_filter_applied = False,
        spice_filter_applied = False\<rparr>" "[peanut_chaat]"]
  show ?thesis
    using upd peanut_hit snack_bar_scores same_id by simp
qed

section \<open>Properties of the pipeline\<close>




text \<open>
  Claim C1. The claim promises a non-empty list whenever the catalog has an available
  dish and \<open>limit \<ge> 1\<close>, however strict the preferences. The fallbacks do hand a dish to the
  scorer, but the inclusion rule of the scorer can then drop it. For a user who prefers
  Thai cuisine, vegan food and hot spice, and a catalog whose only dish is an unrated
  vegetarian mild dish of a North Indian kitchen, the third fallback level fetches the dish,
  its score is -20 (cuisine) + 5 (never ordered) - 15 (dietary) - 5 (spice) = -35, the test
  \<open>score > -30\<close> fails, and the list returned is empty although the dish is available.
\<close>

theorem strict_preferences_empty_result:
  "(1::int) \<le> 10
   \<and> plain_khichdi \<in> set (dishes canteen) \<and> is_available plain_khichdi
   \<and> get_preferred_cuisines_list sample_loads mai = [''Thai'']
   \<and> allergens_list mai = [] \<and> dietary_restrictions_list mai = []
   \<and> budget_preference mai = None
   \<and> fst (candidate_dishes canteen mai [''Thai''] (available_dishes canteen) 10) = [plain_khichdi]
   \<and> compute_score canteen mai [''Thai'']
        \<lparr>cuisine_filter_applied = False, dietary_filter_applied = False,
         spice_filter_applied = False\<rparr> plain_khichdi = (- 35, False)
   \<and> get_rule_based_recommendations sample_loads canteen mai None None 10 = []"
proof -
  have mem: "plain_khichdi \<in> set (dishes canteen)" by (simp add: canteen_def)
  have av: "is_available plain_khichdi" by (simp add: plain_khichdi_def)
  have u: "allergens_list mai = []" "dietary_restrictions_list mai = []"
    "budget_preference mai = None"
    by (simp_all add: mai_def)
  have r: "get_rule_based_recommendations sample_loads canteen mai None None 10 = []"
    using canteen_result by (simp add: recommendations_without_coordinates mai_prefs)
  from mem av u mai_prefs canteen_candidates canteen_score r show ?thesis by simp
qed

text \<open>
  Where the list is lost. For \<open>limit \<ge> 1\<close> the cascade hands a non-empty pool to the scorer
  exactly when the catalog has an available dish; the returned list is then empty exactly
  when the inclusion rule drops every dish of the pool, that is, when none matches a
  preferred cuisine and none has a computed score above -30.
\<close>

lemma recommendations_nonempty_iff:
  assumes "1 \<le> limit"
      and "candidate_dishes d u (get_preferred_cuisines_list loads u)
             (location_stage d lat lon (available_dishes d)) limit = (pool, f)"
  shows "(pool \<noteq> [] \<longleftrightarrow> (\<exists>x \<in> set (dishes d). is_available x))
       \<and> (get_rule_based_recommendations loads d u lat lon limit \<noteq> [] \<longleftrightarrow>
            (\<exists>x \<in> set pool.
               snd (compute_score d u (get_preferred_cuisines_list loads u) f x)
               \<or> fst (compute_score d u (get_preferred_cuisines_list loads u) f x) > - 30))"
proof -
  define prefs where "prefs = get_preferred_cuisines_list loads u"
  have cd: "candidate_dishes d u prefs (location_stage d lat lon (available_dishes d)) limit
            = (pool, f)"
    using assms(2) by (simp add: prefs_def)
  have av: "available_dishes d \<noteq> [] \<longleftrightarrow> (\<exists>x \<in> set (dishes d). is_available x)"
    by (auto simp: available_dishes_def filter_empty_conv)
  have "set (location_stage d lat lon (available_dishes d)) \<subseteq> set (available_dishes d)"
    by (rule set_location_stage)
  then have "set (fst (candidate_dishes d u prefs (location_stage d lat lon (available_dishes d))
      limit)) \<subseteq> set (available_dishes d)"
    by (rule set_candidate_dishes)
  then have sub: "set pool \<subseteq> set (available_dishes d)"
    by (simp add: cd)
  have pool: "pool \<noteq> [] \<longleftrightarrow> available_dishes d \<noteq> []"
  proof
    assume "pool \<noteq> []"
    with sub show "available_dishes d \<noteq> []" by auto
  next
    assume "available_dishes d \<noteq> []"
    then show "pool \<noteq> []"
      using candidate_dishes_nonempty [of d limit u prefs "location_stage d lat lon (available_dishes d)"]
        assms(1) cd by simp
  qed
  have entry: "scored_entry d u prefs f x \<noteq> None \<longleftrightarrow>
        (snd (compute_score d u prefs f x) \<or> fst (compute_score d u prefs f x) > - 30)" for x
    by (cases "compute_score d u prefs f x") (simp add: scored_entry_def)
  have r: "get_rule_based_recommendations loads d u lat lon limit
        = (if pool = [] then []
           else top_dishes d prefs limit (sort_by_score (scored_dishes d u prefs f pool)))"
    using cd by (simp add: get_rule_based_recommendations_def recommend_from_query_cases prefs_def)
  have "get_rule_based_recommendations loads d u lat lon limit \<noteq> [] \<longleftrightarrow>
        (\<exists>x \<in> set pool. scored_entry d u prefs f x \<noteq> None)"
  proof (cases "pool = []")
    case True
    then show ?thesis by (simp add: r)
  next
    case False
    then have "get_rule_based_recommendations loads d u lat lon limit \<noteq> [] \<longleftrightarrow>
          scored_dishes d u prefs f pool \<noteq> []"
      using assms(1) by (simp add: r top_dishes_nil_iff)
    then show ?thesis by (simp add: scored_dishes_nil_iff)
  qed
  then show ?thesis using pool av entry by (simp add: prefs_def)
qed

text \<open>
  Claim C5. When the user has preferred cuisines, the returned list is a run of
  cuisine-matched candidates followed by a run of the others; each run is in descending
  order of score; the first run holds as many matched candidates as there are, up to
  \<open>limit\<close>, the slice \<open>[:limit]\<close> of the matched candidates sorted by score; and an unmatched
  dish is returned only when every matched candidate is. Here \<open>scored\<close> are the scored
  candidates, each dish with its final score.
\<close>

theorem cuisine_matched_first:
  assumes "get_preferred_cuisines_list loads u = prefs" and "prefs \<noteq> []"
      and "candidate_dishes d u prefs (location_stage d lat lon (available_dishes d)) limit = (pool, f)"
      and "scored = sort_by_score (scored_dishes d u prefs f pool)"
  shows "\<exists>ms os. get_rule_based_recommendations loads d u lat lon limit = map fst ms @ map fst os
     \<and> ms = py_take limit (cuisine_matched_list d prefs scored)
     \<and> set ms \<subseteq> {e \<in> set scored. is_cuisine_match d prefs (fst e)}
     \<and> set os \<subseteq> {e \<in> set scored. \<not> is_cuisine_match d prefs (fst e)}
     \<and> sorted_wrt (\<lambda>a b. b \<le> a) (map snd ms)
     \<and> sorted_wrt (\<lambda>a b. b \<le> a) (map snd os)
     \<and> (0 \<le> limit \<longrightarrow> length ms
           = min (nat limit) (length (filter (\<lambda>e. is_cuisine_match d prefs (fst e)) scored)))
     \<and> (os \<noteq> [] \<longrightarrow> set ms = {e \<in> set scored. is_cuisine_match d prefs (fst e)})"
proof (cases "pool = []")
  case True
  then have "get_rule_based_recommendations loads d u lat lon limit = []"
    using assms(1,3) by (simp add: get_rule_based_recommendations_def recommend_from_query_cases)
  moreover have "scored = []" using True assms(4) by (simp add: sort_by_score_def)
  ultimately show ?thesis
    by (intro exI [of _ "[]"]) (simp add: cuisine_matched_list_def sort_by_score_def)
next
  case False
  then have r: "get_rule_based_recommendations loads d u lat lon limit = top_dishes d prefs limit scored"
    using assms(1,3,4) by (simp add: get_rule_based_recommendations_def recommend_from_query_cases)
  from top_dishes_partition [OF assms(2), of d limit scored]
  obtain ms os where t: "top_dishes d prefs limit scored = map fst ms @ map fst os"
    and ms: "ms = py_take limit (cuisine_matched_list d prefs scored)"
    and os: "set os \<subseteq> {e \<in> set scored. \<not> is_cuisine_match d prefs (fst e)}"
    and so: "sorted_wrt (\<lambda>a b. b \<le> a) (map snd os)"
    and all: "os \<noteq> [] \<longrightarrow> ms = cuisine_matched_list d prefs scored"
    by blast
  have sm: "set ms \<subseteq> {e \<in> set scored. is_cuisine_match d prefs (fst e)}"
    using set_py_take [of limit "cuisine_matched_list d prefs scored"] by (simp add: ms)
  have sortm: "sorted_wrt (\<lambda>a b. b \<le> a) (map snd ms)"
    unfolding ms by (intro sorted_desc_take sorted_cuisine_matched_list)
  have len: "0 \<le> limit \<longrightarrow> length ms
           = min (nat limit) (length (filter (\<lambda>e. is_cuisine_match d prefs (fst e)) scored))"
    by (simp add: ms py_take_def length_cuisine_matched_list min.commute)
  have all': "os \<noteq> [] \<longrightarrow> set ms = {e \<in> set scored. is_cuisine_match d prefs (fst e)}"
    using all by auto
  have eq: "get_rule_based_recommendations loads d u lat lon limit = map fst ms @ map fst os"
    using r t by simp
  show ?thesis
    by (rule exI [of _ ms], rule exI [of _ os]) (intro conjI eq ms sm os sortm so len all')
qed

theorem cuisine_matched_first_witness:
  "get_preferred_cuisines_list sample_loads tara = [''South Indian'', ''Tamil'']
   \<and> [''South Indian'', ''Tamil''] \<noteq> []
   \<and> candidate_dishes market tara [''South Indian'', ''Tamil'']
        (location_stage market None None (available_dishes market)) 10
       = ([butter_chicken, masala_dosa], \<lparr>cuisine_filter_applied = False, dietary_filter_applied = False,
           spice_filter_applied = False\<rparr>)
   \<and> get_rule_based_recommendations sample_loads market tara None None 10
       = [masala_dosa, butter_chicken]
   \<and> is_cuisine_match market [''South Indian'', ''Tamil''] masala_dosa
   \<and> \<not> is_cuisine_match market [''South Indian'', ''Tamil''] butter_chicken
   \<and> (\<exists>ms os. [masala_dosa, butter_chicken] = map fst ms @ map fst os
        \<and> set ms \<subseteq> {e \<in> set (sort_by_score (scored_dishes market tara [''South Indian'', ''Tamil'']
                      \<lparr>cuisine_filter_applied = False, dietary_filter_applied = False,
           spice_filter_applied = False\<rparr> [butter_chicken, masala_dosa])).
                    is_cuisine_match market [''South Indian'', ''Tamil''] (fst e)}
        \<and> set os \<subseteq> {e \<in> set (sort_by_score (scored_dishes market tara [''South Indian'', ''Tamil'']
                      \<lparr>cuisine_filter_applied = False, dietary_filter_applied = False,
           spice_filter_applied = False\<rparr> [butter_chicken, masala_dosa])).
                    \<not> is_cuisine_match market [''South Indian'', ''Tamil''] (fst e)}
        \<and> sorted_wrt (\<lambda>a b. b \<le> a) (map snd ms)
        \<and> sorted_wrt (\<lambda>a b. b \<le> a) (map snd os))"
proof -
  have cd: "candidate_dishes market tara [''South Indian'', ''Tamil'']
        (location_stage market None None (available_dishes market)) 10
       = ([butter_chicken, masala_dosa], \<lparr>cuisine_filter_applied = False, dietary_filter_applied = False,
           spice_filter_applied = False\<rparr>)"
    using market_tara_candidates by (simp add: location_stage_without_coordinates)
  have r: "get_rule_based_recommendations sample_loads market tara None None 10
       = [masala_dosa, butter_chicken]"
    using market_tara_result by (simp add: recommendations_without_coordinates tara_prefs)
  from cuisine_matched_first [OF tara_prefs _ cd refl]
  obtain ms os where
    "get_rule_based_recommendations sample_loads market tara None None 10
       = map fst ms @ map fst os"
    "set ms \<subseteq> {e \<in> set (sort_by_score (scored_dishes market tara [''South Indian'', ''Tamil'']
                      \<lparr>cuisine_filter_applied = False, dietary_filter_applied = False,
           spice_filter_applied = False\<rparr> [butter_chicken, masala_dosa])).
                    is_cuisine_match market [''South Indian'', ''Tamil''] (fst e)}"
    "set os \<subseteq> {e \<in> set (sort_by_score (scored_dishes market tara [''South Indian'', ''Tamil'']
                      \<lparr>cuisine_filter_applied = False, dietary_filter_applied = False,
           spice_filter_applied = False\<rparr> [butter_chicken, masala_dosa])).
                    \<not> is_cuisine_match market [''South Indian'', ''Tamil''] (fst e)}"
    "sorted_wrt (\<lambda>a b. b \<le> a) (map snd ms)"
    "sorted_wrt (\<lambda>a b. b \<le> a) (map snd os)"
    by auto
  then have ex: "\<exists>ms os. [masala_dosa, butter_chicken] = map fst ms @ map fst os
        \<and> set ms \<subseteq> {e \<in> set (sort_by_score (scored_dishes market tara [''South Indian'', ''Tamil'']
                      \<lparr>cuisine_filter_applied = False, dietary_filter_applied = False,
           spice_filter_applied = False\<rparr> [butter_chicken, masala_dosa])).
                    is_cuisine_match market [''South Indian'', ''Tamil''] (fst e)}
        \<and> set os \<subseteq> {e \<in> set (sort_by_score (scored_dishes market tara [''South Indian'', ''Tamil'']
                      \<lparr>cuisine_filter_applied = False, dietary_filter_applied = False,
           spice_filter_applied = False\<rparr> [butter_chicken, masala_dosa])).
                    \<not> is_cuisine_match market [''South Indian'', ''Tamil''] (fst e)}
        \<and> sorted_wrt (\<lambda>a b. b \<le> a) (map snd ms)
        \<and> sorted_wrt (\<lambda>a b. b \<le> a) (map snd os)"
    unfolding r by blast
  from tara_prefs cd r market_matches ex show ?thesis by simp
qed

section \<open>Properties of the preference parsing\<close>

text \<open>
  Claim C6, amended. A stored preferred-cuisines text that is not empty and not JSON is not
  dropped: parsing raises nothing and reads it as plain text, namely the trimmed non-blank
  pieces between commas when it contains a comma, and otherwise the trimmed text itself.
  The resulting preference list is empty only when the text consists of whitespace and
  commas, and never holds an empty name.
\<close>

theorem unparseable_cuisines_read_as_text:
  assumes "preferred_cuisines u = Some raw" and "raw \<noteq> []" and "loads raw = None"
  shows "get_preferred_cuisines_list loads u =
           (if CHR '','' \<in> set raw
            then map strip (filter (\<lambda>c. strip c \<noteq> []) (split_on CHR '','' raw))
            else if strip raw \<noteq> [] then [strip raw] else [])
       \<and> (get_preferred_cuisines_list loads u = []
            \<longleftrightarrow> (\<forall>c \<in> set raw. is_space c \<or> c = CHR '',''))
       \<and> (\<forall>c \<in> set (get_preferred_cuisines_list loads u). c \<noteq> [])"
proof -
  have eq: "get_preferred_cuisines_list loads u =
           (if CHR '','' \<in> set raw
            then map strip (filter (\<lambda>c. strip c \<noteq> []) (split_on CHR '','' raw))
            else if strip raw \<noteq> [] then [strip raw] else [])"
    using assms by (simp add: get_preferred_cuisines_list_def truthy_str_def)
  have empty: "get_preferred_cuisines_list loads u = []
            \<longleftrightarrow> (\<forall>c \<in> set raw. is_space c \<or> c = CHR '','')"
  proof (cases "CHR '','' \<in> set raw")
    case True
    then have "get_preferred_cuisines_list loads u = []
        \<longleftrightarrow> (\<forall>p \<in> set (split_on CHR '','' raw). strip p = [])"
      by (simp add: eq filter_empty_conv)
    then show ?thesis by (simp only: all_pieces_blank)
  next
    case False
    then have "get_preferred_cuisines_list loads u = [] \<longleftrightarrow> strip raw = []"
      by (simp add: eq)
    also have "\<dots> \<longleftrightarrow> (\<forall>c \<in> set raw. is_space c)" by (rule strip_nil_iff)
    also have "\<dots> \<longleftrightarrow> (\<forall>c \<in> set raw. is_space c \<or> c = CHR '','')"
      using False by auto
    finally show ?thesis .
  qed
  have nonempty: "\<forall>c \<in> set (get_preferred_cuisines_list loads u). c \<noteq> []"
    unfolding eq by auto
  from eq empty nonempty show ?thesis by blast
qed

theorem unparseable_cuisines_read_as_text_witness:
  "preferred_cuisines walk_in = Some ''South Indian''
   \<and> ''South Indian'' \<noteq> []
   \<and> sample_loads ''South Indian'' = None
   \<and> get_preferred_cuisines_list sample_loads walk_in = [''South Indian'']"
proof -
  have s: "strip ''South Indian'' = ''South Indian''" by code_simp
  have c: "CHR '','' \<notin> set ''South Indian''" by simp
  from unparseable_cuisines_read_as_text [of walk_in "''South Indian''" sample_loads]
  have "get_preferred_cuisines_list sample_loads walk_in = [''South Indian'']"
    using walk_in_raw sample_loads_plain s c by simp
  then show ?thesis using walk_in_raw sample_loads_plain by simp
qed

text \<open>
  As the claim states it, with the unparseable text treated as no preference, it fails:
  for the stored text \<open>South Indian\<close>, which is not JSON, the preference list is
  \<open>[South Indian]\<close>, the cuisine filter is applied, and only the South Indian kitchen's dish
  is recommended.
\<close>

theorem unparseable_cuisines_counterexample:
  "preferred_cuisines walk_in = Some ''South Indian''
   \<and> sample_loads ''South Indian'' = None
   \<and> get_preferred_cuisines_list sample_loads walk_in \<noteq> []
   \<and> cuisine_filter_applied (snd (candidate_dishes kitchen walk_in
         (get_preferred_cuisines_list sample_loads walk_in) (available_dishes kitchen) 10))
   \<and> get_rule_based_recommendations sample_loads kitchen walk_in None None 10 = [masala_dosa]"
proof -
  have r: "get_rule_based_recommendations sample_loads kitchen walk_in None None 10
           = [masala_dosa]"
    using walk_in_result by (simp add: recommendations_without_coordinates walk_in_prefs)
  show ?thesis
    using walk_in_raw sample_loads_plain walk_in_candidates r by (simp add: walk_in_prefs)
qed

end
